theory Spec2Isabelle
  imports Main "HOL-Library.Word"
begin

section \<open>Values, errors and the library functions the resource handler calls\<close>

text \<open>
  The handler of \<^verbatim>\<open>resource_job_v2.go\<close> maps a configuration tree to the job
  structures of the orchestration API and back. Both directions work on Go values of
  type \<^verbatim>\<open>interface{}\<close>; \<open>val\<close> lists the dynamic types that occur in the file.
  A nil slice and an empty slice are both the empty list; a nil
  \<^verbatim>\<open>map[string]interface{}\<close> is \<open>VNil\<close>. Go's \<^verbatim>\<open>int\<close> and
  \<^verbatim>\<open>time.Duration\<close> (nanoseconds) are integers; the file does no arithmetic on them.
\<close>

datatype val =
    VNil
  | VString string
  | VInt int
  | VBool bool
  | VUint8 "8 word"
  | VPtrString "string option"
  | VPtrInt "int option"
  | VPtrBool "bool option"
  | VPtrInt8 "8 word option"
  | VPtrUint64 "64 word option"
  | VPtrDuration "int option"
  | VStrings "string list"
  | VStringMap "(string \<times> string) list"
  | VList "val list"
  | VMap "(string \<times> val) list"

text \<open>
  A function of the file either returns or panics. A returned Go \<^verbatim>\<open>error\<close> is its
  message; the panics that the file can raise are a nil dereference, an index out of
  range and a failed type assertion.
\<close>

datatype panic = NilDereference | IndexOutOfRange | TypeAssertion

datatype error = Error string | Panic panic

definition bnd :: "error + 'a \<Rightarrow> ('a \<Rightarrow> error + 'b) \<Rightarrow> error + 'b" where
  "bnd m f = (case m of Inl e \<Rightarrow> Inl e | Inr x \<Rightarrow> f x)"

text \<open>\<^verbatim>\<open>*p\<close>, and a method with a value receiver called through a pointer.\<close>

definition deref :: "'a option \<Rightarrow> error + 'a" where
  "deref p = (case p of None \<Rightarrow> Inl (Panic NilDereference) | Some x \<Rightarrow> Inr x)"

text \<open>Type assertions \<^verbatim>\<open>v.(T)\<close> and the map index \<^verbatim>\<open>m[name]\<close>, which is nil for a missing key.\<close>

definition assertString :: "val \<Rightarrow> error + string" where
  "assertString v = (case v of VString s \<Rightarrow> Inr s | _ \<Rightarrow> Inl (Panic TypeAssertion))"

definition assertInt :: "val \<Rightarrow> error + int" where
  "assertInt v = (case v of VInt i \<Rightarrow> Inr i | _ \<Rightarrow> Inl (Panic TypeAssertion))"

definition assertBool :: "val \<Rightarrow> error + bool" where
  "assertBool v = (case v of VBool b \<Rightarrow> Inr b | _ \<Rightarrow> Inl (Panic TypeAssertion))"

definition assertList :: "val \<Rightarrow> error + val list" where
  "assertList v = (case v of VList xs \<Rightarrow> Inr xs | _ \<Rightarrow> Inl (Panic TypeAssertion))"

definition assertMap :: "val \<Rightarrow> error + (string \<times> val) list" where
  "assertMap v = (case v of VMap m \<Rightarrow> Inr m | _ \<Rightarrow> Inl (Panic TypeAssertion))"

definition index :: "(string \<times> val) list \<Rightarrow> string \<Rightarrow> val" where
  "index m name = (case map_of m name of None \<Rightarrow> VNil | Some v \<Rightarrow> v)"

text \<open>
  \<^verbatim>\<open>reflect.DeepEqual\<close> on the values the file compares: maps are equal when they have
  the same keys with deeply equal values, whatever the order the literals list them in;
  slices are equal element by element; other values when they are the same value of the
  same dynamic type. A map literal has no key twice, so equal length and
  every key of the first found in the second is equality of the key sets. The slices
  that the file compares are made with \<^verbatim>\<open>make\<close> or a literal, never nil.
\<close>

fun DeepEqual :: "val \<Rightarrow> val \<Rightarrow> bool" where
  "DeepEqual (VMap m1) (VMap m2) =
     (length m1 = length m2 \<and>
      list_all (\<lambda>(k, v). case map_of m2 k of None \<Rightarrow> False | Some v' \<Rightarrow> DeepEqual v v') m1)"
| "DeepEqual (VList xs) (VList ys) = list_all2 DeepEqual xs ys"
| "DeepEqual a b = (a = b)"

text \<open>
  \<^verbatim>\<open>strings.Contains\<close>.
\<close>

fun HasPrefix :: "string \<Rightarrow> string \<Rightarrow> bool" where
  "HasPrefix s [] = True"
| "HasPrefix [] (c # p) = False"
| "HasPrefix (d # s) (c # p) = (d = c \<and> HasPrefix s p)"

fun Contains :: "string \<Rightarrow> string \<Rightarrow> bool" where
  "Contains [] substr = (substr = [])"
| "Contains (c # s) substr = (HasPrefix (c # s) substr \<or> Contains s substr)"

text \<open>
  \<^verbatim>\<open>Duration.String\<close> of the standard library: hours, minutes and seconds with the
  fraction of a second, trailing zeros dropped (\<^verbatim>\<open>1h0m0s\<close>, \<^verbatim>\<open>1.5s\<close>); below a second
  the units are \<^verbatim>\<open>ms\<close>, \<^verbatim>\<open>\<mu>s\<close> (the micro sign is the bytes C2 B5) and
  \<^verbatim>\<open>ns\<close>; zero is \<^verbatim>\<open>0s\<close>.
\<close>

definition digit :: "nat \<Rightarrow> char" where
  "digit n = ''0123456789'' ! n"

fun fmtInt :: "nat \<Rightarrow> string" where
  "fmtInt v = (if v < 10 then [digit v] else fmtInt (v div 10) @ [digit (v mod 10)])"

fun fmtFracDigits :: "nat \<Rightarrow> nat \<Rightarrow> bool \<Rightarrow> string" where
  "fmtFracDigits prec v print =
     (if prec = 0 then ''''
      else
        (let print' = (print \<or> v mod 10 \<noteq> 0)
         in fmtFracDigits (prec - 1) (v div 10) print' @
            (if print' then [digit (v mod 10)] else '''')))"

definition fmtFrac :: "nat \<Rightarrow> nat \<Rightarrow> string \<times> nat" where
  "fmtFrac v prec =
     (let ds = fmtFracDigits prec v False
      in ((if ds = '''' then '''' else CHR ''.'' # ds), v div 10 ^ prec))"

definition Duration_String :: "int \<Rightarrow> string" where
  "Duration_String d =
     (let u = nat \<bar>d\<bar>;
          body =
            (if u < 1000000000 then
               (if u = 0 then ''0s''
                else if u < 1000 then fmtInt u @ ''ns''
                else if u < 1000000 then
                  fmtInt (snd (fmtFrac u 3)) @ fst (fmtFrac u 3) @ [CHR 0xC2, CHR 0xB5, CHR ''s'']
                else fmtInt (snd (fmtFrac u 6)) @ fst (fmtFrac u 6) @ ''ms'')
             else
               (let secs = snd (fmtFrac u 9);
                    s = fmtInt (secs mod 60) @ fst (fmtFrac u 9) @ ''s'';
                    mins = secs div 60
                in if mins > 0 then
                     (let m = fmtInt (mins mod 60) @ ''m'' @ s;
                          hours = mins div 60
                      in if hours > 0 then fmtInt hours @ ''h'' @ m else m)
                   else s))
      in if d < 0 \<and> u \<noteq> 0 then CHR ''-'' # body else body)"

section \<open>The job structures of the orchestration API\<close>

text \<open>
  The structures of the API client library, with the fields the file reads or writes. A Go
  pointer is an option; a slice of pointers is a list of structures (the API returns no
  nil element); \<^verbatim>\<open>map[string]string\<close> is an association list; \<^verbatim>\<open>int8\<close>,
  \<^verbatim>\<open>uint8\<close> and \<^verbatim>\<open>uint64\<close> are words; the free-form \<^verbatim>\<open>Config\<close> maps are values.
\<close>

record Constraint =
  LTarget :: string
  RTarget :: string
  Operand :: string

record Affinity =
  LTarget :: string
  RTarget :: string
  Operand :: string
  Weight :: "8 word option"

record SpreadTarget =
  Value :: string
  Percent :: "8 word"

record Spread =
  Attribute :: string
  Weight :: "8 word option"
  SpreadTarget :: "SpreadTarget list"

record EphemeralDisk =
  Sticky :: "bool option"
  Migrate :: "bool option"
  SizeMB :: "int option"

record RestartPolicy =
  Interval :: "int option"
  Attempts :: "int option"
  Delay :: "int option"
  Mode :: "string option"

record ReschedulePolicy =
  Attempts :: "int option"
  Interval :: "int option"
  Delay :: "int option"
  DelayFunction :: "string option"
  MaxDelay :: "int option"
  Unlimited :: "bool option"

record MigrateStrategy =
  MaxParallel :: "int option"
  HealthCheck :: "string option"
  MinHealthyTime :: "int option"
  HealthyDeadline :: "int option"

record UpdateStrategy =
  Stagger :: "int option"
  MaxParallel :: "int option"
  HealthCheck :: "string option"
  MinHealthyTime :: "int option"
  HealthyDeadline :: "int option"
  ProgressDeadline :: "int option"
  Canary :: "int option"
  AutoRevert :: "bool option"
  AutoPromote :: "bool option"

record VolumeRequest =
  Name :: string
  Type :: string
  Source :: string
  ReadOnly :: bool

record DNSConfig =
  Servers :: "string list"
  Searches :: "string list"
  Options :: "string list"

record NetworkResource =
  Mode :: string
  MBits :: "int option"
  DNS :: "DNSConfig option"

record CheckRestart =
  Limit :: int
  Grace :: "int option"
  IgnoreWarnings :: bool

record ServiceCheck =
  AddressMode :: string
  Args :: "string list"
  Command :: string
  GRPCService :: string
  GRPCUseTLS :: bool
  InitialStatus :: string
  SuccessBeforePassing :: int
  FailuresBeforeCritical :: int
  Interval :: int
  Method :: string
  Name :: string
  Path :: string
  Expose :: bool
  PortLabel :: string
  Protocol :: string
  TaskName :: string
  Timeout :: int
  Type :: string
  TLSSkipVerify :: bool
  CheckRestart :: "CheckRestart option"

record ConsulExposePath =
  Path :: string
  Protocol :: string
  LocalPathPort :: int
  ListenerPort :: string

record ConsulExposeConfig =
  Path :: "ConsulExposePath list"

record ConsulUpstream =
  DestinationName :: string
  LocalBindPort :: int

record ConsulProxy =
  LocalServiceAddress :: string
  LocalServicePort :: int
  ExposeConfig :: "ConsulExposeConfig option"
  Upstreams :: "ConsulUpstream list"
  Config :: val

record ConsulSidecarService =
  Tags :: "string list"
  Port :: string
  Proxy :: "ConsulProxy option"

record LogConfig =
  MaxFiles :: "int option"
  MaxFileSizeMB :: "int option"

record RequestedDevice =
  Name :: string
  Count :: "64 word option"
  Constraints :: "Constraint list"
  Affinities :: "Affinity list"

record Resources =
  CPU :: "int option"
  MemoryMB :: "int option"
  Networks :: "NetworkResource list"
  Devices :: "RequestedDevice list"

record SidecarTask =
  Name :: string
  Driver :: string
  User :: string
  Config :: val
  Env :: "(string \<times> string) list"
  Resources :: "Resources option"
  Meta :: "(string \<times> string) list"
  KillTimeout :: "int option"
  LogConfig :: "LogConfig option"
  ShutdownDelay :: "int option"
  KillSignal :: string

record ConsulConnect =
  Native :: bool
  SidecarService :: "ConsulSidecarService option"
  SidecarTask :: "SidecarTask option"

record Service =
  Name :: string
  Tags :: "string list"
  CanaryTags :: "string list"
  EnableTagOverride :: bool
  PortLabel :: string
  AddressMode :: string
  Checks :: "ServiceCheck list"
  Connect :: "ConsulConnect option"
  Meta :: "(string \<times> string) list"
  CanaryMeta :: "(string \<times> string) list"
  TaskName :: string

record TaskArtifact =
  GetterSource :: "string option"
  GetterOptions :: "(string \<times> string) list"
  GetterMode :: "string option"
  RelativeDest :: "string option"

record DispatchPayloadConfig =
  File :: string

record TaskLifecycle =
  Hook :: string
  Sidecar :: bool

record Template =
  SourcePath :: "string option"
  DestPath :: "string option"
  EmbeddedTmpl :: "string option"
  ChangeMode :: "string option"
  ChangeSignal :: "string option"
  Splay :: "int option"
  Perms :: "string option"
  LeftDelim :: "string option"
  RightDelim :: "string option"
  Envvars :: "bool option"
  VaultGrace :: "int option"

record VolumeMount =
  Volume :: "string option"
  Destination :: "string option"
  ReadOnly :: "bool option"

record Vault =
  Policies :: "string list"
  Namespace :: "string option"
  Env :: "bool option"
  ChangeMode :: "string option"
  ChangeSignal :: "string option"

record Task =
  Name :: string
  Driver :: string
  User :: string
  Lifecycle :: "TaskLifecycle option"
  Config :: val
  Constraints :: "Constraint list"
  Affinities :: "Affinity list"
  Env :: "(string \<times> string) list"
  Services :: "Service list"
  Resources :: "Resources option"
  Meta :: "(string \<times> string) list"
  KillTimeout :: "int option"
  LogConfig :: "LogConfig option"
  Artifacts :: "TaskArtifact list"
  Vault :: "Vault option"
  Templates :: "Template list"
  DispatchPayload :: "DispatchPayloadConfig option"
  VolumeMounts :: "VolumeMount list"
  Leader :: bool
  ShutdownDelay :: int
  KillSignal :: string
  Kind :: string

record TaskGroup =
  Name :: "string option"
  Count :: "int option"
  Constraints :: "Constraint list"
  Affinities :: "Affinity list"
  Tasks :: "Task list"
  Spreads :: "Spread list"
  Volumes :: "(string \<times> VolumeRequest) list"
  RestartPolicy :: "RestartPolicy option"
  ReschedulePolicy :: "ReschedulePolicy option"
  EphemeralDisk :: "EphemeralDisk option"
  Migrate :: "MigrateStrategy option"
  Networks :: "NetworkResource list"
  Meta :: "(string \<times> string) list"
  Services :: "Service list"
  ShutdownDelay :: "int option"
  StopAfterClientDisconnect :: "int option"

record ParameterizedJobConfig =
  Payload :: string
  MetaRequired :: "string list"
  MetaOptional :: "string list"

record PeriodicConfig =
  Enabled :: "bool option"
  Spec :: "string option"
  SpecType :: "string option"
  ProhibitOverlap :: "bool option"
  TimeZone :: "string option"

record Job =
  Region :: "string option"
  Namespace :: "string option"
  ID :: "string option"
  Name :: "string option"
  Type :: "string option"
  Priority :: "int option"
  AllAtOnce :: "bool option"
  Datacenters :: "string list"
  Constraints :: "Constraint list"
  Affinities :: "Affinity list"
  TaskGroups :: "TaskGroup list"
  Update :: "UpdateStrategy option"
  Spreads :: "Spread list"
  Periodic :: "PeriodicConfig option"
  ParameterizedJob :: "ParameterizedJobConfig option"
  Meta :: "(string \<times> string) list"
  ConsulToken :: "string option"
  VaultToken :: "string option"

section \<open>The configuration handle\<close>

text \<open>
  \<^verbatim>\<open>schema.ResourceData\<close> of the configuration engine, as far as the file uses it: the
  identity (\<^verbatim>\<open>d.Id()\<close>, \<^verbatim>\<open>d.SetId\<close>) and the value under a field name (\<^verbatim>\<open>d.Get\<close>).
\<close>

record ResourceData =
  Id' :: string
  Get :: "string \<Rightarrow> val"

definition SetId :: "string \<Rightarrow> ResourceData \<Rightarrow> ResourceData" where
  "SetId v d = d\<lparr>Id' := v\<rparr>"

text \<open>
  Modelled from the spec: the state writer \<^verbatim>\<open>helper.StateWriter\<close> and the schema of
  the fields are not among the sources. The spec has the engine accept "state writes via
  a setter-by-field-name interface" and has the fields of the configuration tree be
  "scalars (string, integer, boolean), maps of string\<rightarrow>string, or ordered sequences of
  nested blocks", an optional block "a sequence of length 0 or 1". So \<open>Set\<close> puts under
  the name the value in these types: a pointer to a scalar as the scalar (a nil pointer
  as its zero value), a sized integer as an integer, a slice of strings as a sequence, a
  map of strings as a map, nil as the empty sequence, and so inside sequences and
  blocks; \<^verbatim>\<open>sw.Error()\<close> is nil. A pointer to a duration has no such type and is left
  as it is.
\<close>

fun stored :: "val \<Rightarrow> val" where
  "stored (VPtrString p) = VString (case p of None \<Rightarrow> [] | Some s \<Rightarrow> s)"
| "stored (VPtrInt p) = VInt (case p of None \<Rightarrow> 0 | Some i \<Rightarrow> i)"
| "stored (VPtrBool p) = VBool (case p of None \<Rightarrow> False | Some b \<Rightarrow> b)"
| "stored (VPtrInt8 p) = VInt (case p of None \<Rightarrow> 0 | Some w \<Rightarrow> sint w)"
| "stored (VUint8 w) = VInt (uint w)"
| "stored (VPtrUint64 p) = VInt (case p of None \<Rightarrow> 0 | Some w \<Rightarrow> uint w)"
| "stored (VStrings xs) = VList (map VString xs)"
| "stored (VStringMap m) = VMap (map (\<lambda>(k, v). (k, VString v)) m)"
| "stored (VList xs) = VList (map stored xs)"
| "stored (VMap m) = VMap (map (\<lambda>(k, v). (k, stored v)) m)"
| "stored VNil = VList []"
| "stored v = v"

definition Set :: "string \<Rightarrow> val \<Rightarrow> ResourceData \<Rightarrow> ResourceData" where
  "Set name v d = d\<lparr>Get := (Get d)(name := stored v)\<rparr>"

text \<open>
  The verb \<^verbatim>\<open>%q\<close> of \<^verbatim>\<open>fmt.Errorf\<close> writes a string between double quotes, with a
  backslash before a double quote or a backslash and Go's escapes for the control
  characters. Bytes from 0x80 on stand for printable text in UTF-8 and are copied.
\<close>

definition hex2 :: "nat \<Rightarrow> string" where
  "hex2 n = [''0123456789abcdef'' ! (n div 16), ''0123456789abcdef'' ! (n mod 16)]"

definition quoteChar :: "char \<Rightarrow> string" where
  "quoteChar c =
     (let n = (of_char c :: nat)
      in if n = 0x22 \<or> n = 0x5C then [CHR 0x5C, c]
         else if 0x20 \<le> n \<and> n < 0x7F then [c]
         else if n = 7 then [CHR 0x5C, CHR ''a'']
         else if n = 8 then [CHR 0x5C, CHR ''b'']
         else if n = 12 then [CHR 0x5C, CHR ''f'']
         else if n = 10 then [CHR 0x5C, CHR ''n'']
         else if n = 13 then [CHR 0x5C, CHR ''r'']
         else if n = 9 then [CHR 0x5C, CHR ''t'']
         else if n = 11 then [CHR 0x5C, CHR ''v'']
         else if n < 0x80 then [CHR 0x5C, CHR ''x''] @ hex2 n
         else [c])"

definition Quote :: "string \<Rightarrow> string" where
  "Quote s = CHR 0x22 # concat (map quoteChar s) @ [CHR 0x22]"

section \<open>The decoder: from the API structures to the configuration tree\<close>

text \<open>
  A loop that appends one value for each element, in order, and stops at the first
  element whose body fails.
\<close>

fun forEach :: "('a \<Rightarrow> error + 'b) \<Rightarrow> 'a list \<Rightarrow> error + 'b list" where
  "forEach f [] = Inr []"
| "forEach f (x # xs) = bnd (f x) (\<lambda>y. bnd (forEach f xs) (\<lambda>ys. Inr (y # ys)))"

definition readConstraints :: "Constraint list \<Rightarrow> val" where
  "readConstraints constraints =
     VList (map (\<lambda>cn. VMap [
       (''attribute'', VString (Constraint.LTarget cn)),
       (''operator'', VString (Constraint.Operand cn)),
       (''value'', VString (Constraint.RTarget cn))]) constraints)"

definition readAffinities :: "Affinity list \<Rightarrow> val" where
  "readAffinities affinities =
     VList (map (\<lambda>af. VMap [
       (''attribute'', VString (Affinity.LTarget af)),
       (''operator'', VString (Affinity.Operand af)),
       (''value'', VString (Affinity.RTarget af)),
       (''weight'', VPtrInt8 (Affinity.Weight af))]) affinities)"

definition readSpreads :: "Spread list \<Rightarrow> val" where
  "readSpreads spreads =
     VList (map (\<lambda>s.
       (let targets = map (\<lambda>t. VMap [
              (''value'', VString (SpreadTarget.Value t)),
              (''percent'', VUint8 (SpreadTarget.Percent t))]) (Spread.SpreadTarget s)
        in VMap [
             (''attribute'', VString (Spread.Attribute s)),
             (''weight'', VPtrInt8 (Spread.Weight s)),
             (''target'', VList targets)])) spreads)"

definition readMigrate :: "bool \<Rightarrow> MigrateStrategy option \<Rightarrow> error + val" where
  "readMigrate isSet migrate =
     (case migrate of
        None \<Rightarrow> Inr VNil
      | Some m \<Rightarrow>
          bnd (deref (MigrateStrategy.MaxParallel m)) (\<lambda>max_parallel.
          bnd (deref (MigrateStrategy.HealthCheck m)) (\<lambda>health_check.
          bnd (deref (MigrateStrategy.MinHealthyTime m)) (\<lambda>min_healthy_time.
          bnd (deref (MigrateStrategy.HealthyDeadline m)) (\<lambda>healthy_deadline.
            (let res = VMap [
                   (''max_parallel'', VInt max_parallel),
                   (''health_check'', VString health_check),
                   (''min_healthy_time'', VString (Duration_String min_healthy_time)),
                   (''healthy_deadline'', VString (Duration_String healthy_deadline))];
                 defaultValue = VMap [
                   (''max_parallel'', VInt 1),
                   (''health_check'', VString ''checks''),
                   (''min_healthy_time'', VString ''10s''),
                   (''healthy_deadline'', VString ''5m0s'')]
             in if \<not> isSet \<and> DeepEqual res defaultValue then Inr VNil
                else Inr (VList [res])))))))"

definition readReschedule ::
  "ResourceData \<Rightarrow> bool \<Rightarrow> ReschedulePolicy option \<Rightarrow> error + val" where
  "readReschedule d isSet reschedule =
     (case reschedule of
        None \<Rightarrow> Inr VNil
      | Some r \<Rightarrow>
          bnd (deref (ReschedulePolicy.Attempts r)) (\<lambda>attempts.
          bnd (deref (ReschedulePolicy.Interval r)) (\<lambda>interval.
          bnd (deref (ReschedulePolicy.Delay r)) (\<lambda>delay.
          bnd (deref (ReschedulePolicy.DelayFunction r)) (\<lambda>delay_function.
          bnd (deref (ReschedulePolicy.MaxDelay r)) (\<lambda>max_delay.
          bnd (deref (ReschedulePolicy.Unlimited r)) (\<lambda>unlimited.
            (let res = VMap [
                   (''attempts'', VInt attempts),
                   (''interval'', VString (Duration_String interval)),
                   (''delay'', VString (Duration_String delay)),
                   (''delay_function'', VString delay_function),
                   (''max_delay'', VString (Duration_String max_delay)),
                   (''unlimited'', VBool unlimited)]
             in bnd (assertString (Get d ''type'')) (\<lambda>type'.
                bnd (if type' = ''service'' then
                       Inr (VMap [
                         (''attempts'', VInt 0),
                         (''interval'', VString ''0s''),
                         (''delay'', VString ''30s''),
                         (''delay_function'', VString ''exponential''),
                         (''max_delay'', VString ''1h0m0s''),
                         (''unlimited'', VBool True)])
                     else if type' = ''batch'' then
                       Inr (VMap [
                         (''attempts'', VInt 1),
                         (''interval'', VString ''24h0m0s''),
                         (''delay'', VString ''5s''),
                         (''delay_function'', VString ''constant''),
                         (''max_delay'', VString ''0s''),
                         (''unlimited'', VBool False)])
                     else if type' = ''system'' then Inr (VMap [])
                     else Inl (Error (Quote type' @ '' is not supported''))) (\<lambda>defaultValue.
                if \<not> isSet \<and> DeepEqual res defaultValue then Inr VNil
                else Inr (VList [res])))))))))))"

definition readUpdate :: "ResourceData \<Rightarrow> UpdateStrategy option \<Rightarrow> error + val" where
  "readUpdate d update =
     (case update of
        None \<Rightarrow> Inr VNil
      | Some u \<Rightarrow>
          bnd (deref (UpdateStrategy.MaxParallel u)) (\<lambda>max_parallel.
          bnd (deref (UpdateStrategy.HealthCheck u)) (\<lambda>health_check.
          bnd (deref (UpdateStrategy.MinHealthyTime u)) (\<lambda>min_healthy_time.
          bnd (deref (UpdateStrategy.HealthyDeadline u)) (\<lambda>healthy_deadline.
          bnd (deref (UpdateStrategy.ProgressDeadline u)) (\<lambda>progress_deadline.
          bnd (deref (UpdateStrategy.AutoRevert u)) (\<lambda>auto_revert.
          bnd (deref (UpdateStrategy.AutoPromote u)) (\<lambda>auto_promote.
          bnd (deref (UpdateStrategy.Canary u)) (\<lambda>canary.
          bnd (deref (UpdateStrategy.Stagger u)) (\<lambda>stagger.
            (let res = VMap [
                   (''max_parallel'', VInt max_parallel),
                   (''health_check'', VString health_check),
                   (''min_healthy_time'', VString (Duration_String min_healthy_time)),
                   (''healthy_deadline'', VString (Duration_String healthy_deadline)),
                   (''progress_deadline'', VString (Duration_String progress_deadline)),
                   (''auto_revert'', VBool auto_revert),
                   (''auto_promote'', VBool auto_promote),
                   (''canary'', VInt canary),
                   (''stagger'', VString (Duration_String stagger))]
             in bnd (assertString (Get d ''type'')) (\<lambda>type'.
                bnd (if type' = ''service'' then
                       Inr (VMap [
                         (''auto_promote'', VBool False),
                         (''auto_revert'', VBool False),
                         (''canary'', VInt 0),
                         (''health_check'', VString []),
                         (''healthy_deadline'', VString ''0s''),
                         (''max_parallel'', VInt 1),
                         (''min_healthy_time'', VString ''0s''),
                         (''progress_deadline'', VString ''0s''),
                         (''stagger'', VString ''30s'')])
                     else if type' = ''batch'' \<or> type' = ''system'' then
                       Inr (VMap [
                         (''auto_promote'', VBool False),
                         (''auto_revert'', VBool False),
                         (''canary'', VInt 0),
                         (''health_check'', VString []),
                         (''healthy_deadline'', VString ''0s''),
                         (''max_parallel'', VInt 0),
                         (''min_healthy_time'', VString ''0s''),
                         (''progress_deadline'', VString ''0s''),
                         (''stagger'', VString ''0s'')])
                     else Inl (Error (Quote type' @ '' is not supported''))) (\<lambda>defaultValue.
                bnd (assertList (Get d ''update'')) (\<lambda>update_blocks.
                  (let isSet = (length update_blocks > 0)
                   in if \<not> isSet \<and> DeepEqual res defaultValue then Inr VNil
                      else Inr (VList [res]))))))))))))))))"

definition readNetworks :: "NetworkResource list \<Rightarrow> error + val" where
  "readNetworks networks =
     bnd (forEach (\<lambda>n.
       (let dns = (case NetworkResource.DNS n of
                     None \<Rightarrow> []
                   | Some c \<Rightarrow> [VMap [
                       (''servers'', VStrings (DNSConfig.Servers c)),
                       (''searches'', VStrings (DNSConfig.Searches c)),
                       (''options'', VStrings (DNSConfig.Options c))]])
        in bnd (deref (NetworkResource.MBits n)) (\<lambda>mbits.
           Inr (VMap [
             (''mbits'', VInt mbits),
             (''mode'', VString (NetworkResource.Mode n)),
             (''port'', VList [VNil]),
             (''dns'', VList dns)])))) networks)
       (\<lambda>res. Inr (VList res))"

text \<open>
  \<open>json_Marshal\<close> is \<^verbatim>\<open>json.Marshal\<close> on a free-form mapping, a parameter of the
  readers that call it: the text or an error. A reader that loops over a list has the
  body of its loop as a function of its own.
\<close>

definition readServices_body :: "(val \<Rightarrow> error + string) \<Rightarrow> Service \<Rightarrow> error + val" where
  "readServices_body json_Marshal sv =
       (let checks = map (\<lambda>ck.
              (let checkRestart =
                     (case ServiceCheck.CheckRestart ck of
                        None \<Rightarrow> []
                      | Some cr \<Rightarrow> [VMap [
                          (''limit'', VInt (CheckRestart.Limit cr)),
                          (''grace'', VPtrDuration (CheckRestart.Grace cr)),
                          (''ignore_warnings'', VBool (CheckRestart.IgnoreWarnings cr))]])
               in VMap [
                    (''address_mode'', VString (ServiceCheck.AddressMode ck)),
                    (''args'', VStrings (ServiceCheck.Args ck)),
                    (''command'', VString (ServiceCheck.Command ck)),
                    (''grpc_service'', VString (ServiceCheck.GRPCService ck)),
                    (''grpc_use_tls'', VBool (ServiceCheck.GRPCUseTLS ck)),
                    (''initial_status'', VString (ServiceCheck.InitialStatus ck)),
                    (''success_before_passing'', VInt (ServiceCheck.SuccessBeforePassing ck)),
                    (''failures_before_critical'', VInt (ServiceCheck.FailuresBeforeCritical ck)),
                    (''interval'', VString (Duration_String (ServiceCheck.Interval ck))),
                    (''method'', VString (ServiceCheck.Method ck)),
                    (''name'', VString (ServiceCheck.Name ck)),
                    (''path'', VString (ServiceCheck.Path ck)),
                    (''expose'', VBool (ServiceCheck.Expose ck)),
                    (''port'', VString (ServiceCheck.PortLabel ck)),
                    (''protocol'', VString (ServiceCheck.Protocol ck)),
                    (''task'', VString (ServiceCheck.TaskName ck)),
                    (''timeout'', VString (Duration_String (ServiceCheck.Timeout ck))),
                    (''type'', VString (ServiceCheck.Type ck)),
                    (''tls_skip_verify'', VBool (ServiceCheck.TLSSkipVerify ck)),
                    (''check_restart'', VList checkRestart)])) (Service.Checks sv)
        in bnd (case Service.Connect sv of
                  None \<Rightarrow> Inr []
                | Some cn \<Rightarrow>
                    bnd (case ConsulConnect.SidecarService cn of
                           None \<Rightarrow> Inr []
                         | Some ss \<Rightarrow>
                             bnd (case ConsulSidecarService.Proxy ss of
                                    None \<Rightarrow> Inr []
                                  | Some p \<Rightarrow>
                                      bnd (json_Marshal (ConsulProxy.Config p)) (\<lambda>config.
                                        (let upstreams = map (\<lambda>up. VMap [
                                               (''destination_name'', VString (ConsulUpstream.DestinationName up)),
                                               (''local_bind_port'', VInt (ConsulUpstream.LocalBindPort up))])
                                               (ConsulProxy.Upstreams p);
                                             expose =
                                               (case ConsulProxy.ExposeConfig p of
                                                  None \<Rightarrow> []
                                                | Some ec \<Rightarrow>
                                                    (let paths = map (\<lambda>path. VMap [
                                                           (''path'', VString (ConsulExposePath.Path path)),
                                                           (''protocol'', VString (ConsulExposePath.Protocol path)),
                                                           (''local_path_port'', VInt (ConsulExposePath.LocalPathPort path)),
                                                           (''listener_port'', VString (ConsulExposePath.ListenerPort path))])
                                                           (ConsulExposeConfig.Path ec)
                                                     in [VMap [(''path'', VList paths)]]))
                                         in Inr [VMap [
                                              (''local_service_address'', VString (ConsulProxy.LocalServiceAddress p)),
                                              (''local_service_port'', VInt (ConsulProxy.LocalServicePort p)),
                                              (''config'', VString config),
                                              (''upstreams'', VList upstreams),
                                              (''expose'', VList expose)]])))
                               (\<lambda>proxy. Inr [VMap [
                                  (''tags'', VStrings (ConsulSidecarService.Tags ss)),
                                  (''port'', VString (ConsulSidecarService.Port ss)),
                                  (''proxy'', VList proxy)]]))
                      (\<lambda>sidecarService. Inr [VMap [
                         (''native'', VBool (ConsulConnect.Native cn)),
                         (''sidecar_service'', VList sidecarService),
                         (''sidecar_task'', VNil)]]))
             (\<lambda>connect. Inr (VMap [
                (''meta'', VStringMap (Service.Meta sv)),
                (''name'', VString (Service.Name sv)),
                (''port'', VString (Service.PortLabel sv)),
                (''tags'', VStrings (Service.Tags sv)),
                (''canary_tags'', VStrings (Service.CanaryTags sv)),
                (''enable_tag_override'', VBool (Service.EnableTagOverride sv)),
                (''address_mode'', VString (Service.AddressMode sv)),
                (''task'', VString (Service.TaskName sv)),
                (''check'', VList checks),
                (''connect'', VList connect),
                (''canary_meta'', VStringMap (Service.CanaryMeta sv))])))"

definition readServices :: "(val \<Rightarrow> error + string) \<Rightarrow> Service list \<Rightarrow> error + val" where
  "readServices json_Marshal services =
     bnd (forEach (readServices_body json_Marshal) services) (\<lambda>res. Inr (VList res))"

definition readLogs :: "LogConfig option \<Rightarrow> error + val" where
  "readLogs logs =
     (case logs of
        None \<Rightarrow> Inr VNil
      | Some l \<Rightarrow>
          bnd (deref (LogConfig.MaxFiles l)) (\<lambda>max_files.
          bnd (deref (LogConfig.MaxFileSizeMB l)) (\<lambda>max_file_size.
            (let res = VMap [
                   (''max_files'', VInt max_files),
                   (''max_file_size'', VInt max_file_size)];
                 defaultValue = VMap [
                   (''max_files'', VInt 10),
                   (''max_file_size'', VInt 10)]
             in if DeepEqual res defaultValue then Inr VNil
                else Inr (VList [res])))))"

definition readResources :: "Resources option \<Rightarrow> error + val" where
  "readResources resources =
     (case resources of
        None \<Rightarrow> Inr VNil
      | Some r \<Rightarrow>
          (let devices = map (\<lambda>dev. VMap [
                 (''name'', VString (RequestedDevice.Name dev)),
                 (''count'', VPtrUint64 (RequestedDevice.Count dev)),
                 (''constraint'', readConstraints (RequestedDevice.Constraints dev)),
                 (''affinity'', readAffinities (RequestedDevice.Affinities dev))])
                 (Resources.Devices r)
           in bnd (deref (Resources.CPU r)) (\<lambda>cpu.
              bnd (deref (Resources.MemoryMB r)) (\<lambda>memory.
              bnd (readNetworks (Resources.Networks r)) (\<lambda>network.
                (let res = VMap [
                       (''cpu'', VInt cpu),
                       (''memory'', VInt memory),
                       (''device'', VList devices),
                       (''network'', network)];
                     defaultValue = VMap [
                       (''cpu'', VInt 100),
                       (''device'', VList []),
                       (''memory'', VInt 300),
                       (''network'', VList [])]
                 in if DeepEqual res defaultValue then Inr VNil
                    else Inr (VList [res])))))))"

definition readVault :: "Vault option \<Rightarrow> val" where
  "readVault vault =
     (case vault of
        None \<Rightarrow> VNil
      | Some v \<Rightarrow> VList [VMap [
          (''change_mode'', VPtrString (Vault.ChangeMode v)),
          (''change_signal'', VPtrString (Vault.ChangeSignal v)),
          (''env'', VPtrBool (Vault.Env v)),
          (''namespace'', VPtrString (Vault.Namespace v)),
          (''policies'', VStrings (Vault.Policies v))]])"

definition readTasks_body :: "(val \<Rightarrow> error + string) \<Rightarrow> Task \<Rightarrow> error + val" where
  "readTasks_body json_Marshal t =
       bnd (json_Marshal (Task.Config t)) (\<lambda>config.
         (let artifacts = map (\<lambda>at. VMap [
                (''destination'', VPtrString (TaskArtifact.RelativeDest at)),
                (''mode'', VPtrString (TaskArtifact.GetterMode at)),
                (''options'', VStringMap (TaskArtifact.GetterOptions at)),
                (''source'', VPtrString (TaskArtifact.GetterSource at))]) (Task.Artifacts t);
              dispatchPayload =
                (case Task.DispatchPayload t of
                   None \<Rightarrow> []
                 | Some dp \<Rightarrow> [VMap [(''file'', VString (DispatchPayloadConfig.File dp))]]);
              lifecycle =
                (case Task.Lifecycle t of
                   None \<Rightarrow> []
                 | Some l \<Rightarrow> [VMap [
                     (''hook'', VString (TaskLifecycle.Hook l)),
                     (''sidecar'', VBool (TaskLifecycle.Sidecar l))]])
          in bnd (forEach (\<lambda>tpl.
                    bnd (deref (Template.Splay tpl)) (\<lambda>splay.
                    bnd (deref (Template.VaultGrace tpl)) (\<lambda>vault_grace.
                      Inr (VMap [
                        (''change_mode'', VPtrString (Template.ChangeMode tpl)),
                        (''change_signal'', VPtrString (Template.ChangeSignal tpl)),
                        (''data'', VPtrString (Template.EmbeddedTmpl tpl)),
                        (''destination'', VPtrString (Template.DestPath tpl)),
                        (''env'', VPtrBool (Template.Envvars tpl)),
                        (''left_delimiter'', VPtrString (Template.LeftDelim tpl)),
                        (''perms'', VPtrString (Template.Perms tpl)),
                        (''right_delimiter'', VPtrString (Template.RightDelim tpl)),
                        (''source'', VPtrString (Template.SourcePath tpl)),
                        (''splay'', VString (Duration_String splay)),
                        (''vault_grace'', VString (Duration_String vault_grace))]))))
                    (Task.Templates t)) (\<lambda>templates.
               (let volumeMounts = map (\<lambda>vm. VMap [
                      (''volume'', VPtrString (VolumeMount.Volume vm)),
                      (''destination'', VPtrString (VolumeMount.Destination vm)),
                      (''read_only'', VPtrBool (VolumeMount.ReadOnly vm))]) (Task.VolumeMounts t)
                in bnd (readServices json_Marshal (Task.Services t)) (\<lambda>services.
                   bnd (deref (Task.KillTimeout t)) (\<lambda>kill_timeout.
                   bnd (readLogs (Task.LogConfig t)) (\<lambda>logs.
                   bnd (readResources (Task.Resources t)) (\<lambda>resources.
                     Inr (VMap [
                       (''name'', VString (Task.Name t)),
                       (''config'', VString config),
                       (''env'', VStringMap (Task.Env t)),
                       (''meta'', VStringMap (Task.Meta t)),
                       (''driver'', VString (Task.Driver t)),
                       (''kill_timeout'', VString (Duration_String kill_timeout)),
                       (''kill_signal'', VString (Task.KillSignal t)),
                       (''leader'', VBool (Task.Leader t)),
                       (''shutdown_delay'', VString (Duration_String (Task.ShutdownDelay t))),
                       (''user'', VString (Task.User t)),
                       (''kind'', VString (Task.Kind t)),
                       (''artifact'', VList artifacts),
                       (''constraint'', readConstraints (Task.Constraints t)),
                       (''affinity'', readAffinities (Task.Affinities t)),
                       (''dispatch_payload'', VList dispatchPayload),
                       (''lifecycle'', VList lifecycle),
                       (''logs'', logs),
                       (''resources'', resources),
                       (''service'', services),
                       (''template'', VList templates),
                       (''vault'', readVault (Task.Vault t)),
                       (''volume_mount'', VList volumeMounts)])))))))))"

definition readTasks :: "(val \<Rightarrow> error + string) \<Rightarrow> Task list \<Rightarrow> error + val" where
  "readTasks json_Marshal tasks =
     bnd (forEach (readTasks_body json_Marshal) tasks) (\<lambda>res. Inr (VList res))"

text \<open>
  \<open>readGroups\<close>. The two blocks that \<open>readGroups\<close> computes in line, the ephemeral disk
  and the restart policy of a group, then the body of its loop and the loop itself, which
  reads the group of the prior configuration at the index of the API's group.
  The volumes of a group are a Go map, read in the order of the association list.
\<close>

definition readGroups_ephemeralDisk ::
  "(string \<times> val) list \<Rightarrow> TaskGroup \<Rightarrow> error + val list" where
  "readGroups_ephemeralDisk currentConfig g =
     (case TaskGroup.EphemeralDisk g of
        None \<Rightarrow> Inr []
      | Some e \<Rightarrow>
          bnd (deref (EphemeralDisk.Migrate e)) (\<lambda>migrate.
          bnd (deref (EphemeralDisk.SizeMB e)) (\<lambda>size.
          bnd (deref (EphemeralDisk.Sticky e)) (\<lambda>sticky.
            (let disk = VMap [
                   (''migrate'', VBool migrate),
                   (''size'', VInt size),
                   (''sticky'', VBool sticky)];
                 defaultValue = VMap [
                   (''migrate'', VBool False),
                   (''size'', VInt 300),
                   (''sticky'', VBool False)]
             in bnd (assertList (index currentConfig ''ephemeral_disk'')) (\<lambda>set'.
                  if length set' > 0 \<or> \<not> DeepEqual disk defaultValue then Inr [disk]
                  else Inr []))))))"

definition readGroups_restart ::
  "ResourceData \<Rightarrow> (string \<times> val) list \<Rightarrow> TaskGroup \<Rightarrow> error + val list" where
  "readGroups_restart d currentConfig g =
     (case TaskGroup.RestartPolicy g of
        None \<Rightarrow> Inr []
      | Some rp \<Rightarrow>
          bnd (deref (RestartPolicy.Attempts rp)) (\<lambda>attempts.
          bnd (deref (RestartPolicy.Delay rp)) (\<lambda>delay.
          bnd (deref (RestartPolicy.Interval rp)) (\<lambda>interval.
          bnd (deref (RestartPolicy.Mode rp)) (\<lambda>mode.
            (let r = VMap [
                   (''attempts'', VInt attempts),
                   (''delay'', VString (Duration_String delay)),
                   (''interval'', VString (Duration_String interval)),
                   (''mode'', VString mode)]
             in bnd (assertString (Get d ''type'')) (\<lambda>type'.
                bnd (if type' = ''service'' then
                       Inr (VMap [
                         (''attempts'', VInt 2),
                         (''delay'', VString ''15s''),
                         (''interval'', VString ''30m0s''),
                         (''mode'', VString ''fail'')])
                     else if type' = ''batch'' then
                       Inr (VMap [
                         (''attempts'', VInt 3),
                         (''delay'', VString ''15s''),
                         (''interval'', VString ''24h0m0s''),
                         (''mode'', VString ''fail'')])
                     else if type' = ''system'' then
                       Inr (VMap [
                         (''attempts'', VInt 2),
                         (''delay'', VString ''15s''),
                         (''interval'', VString ''30m0s''),
                         (''mode'', VString ''fail'')])
                     else Inl (Error (Quote type' @ '' is not supported''))) (\<lambda>defaultValue.
                bnd (assertList (index currentConfig ''restart'')) (\<lambda>set'.
                  if length set' > 0 \<or> \<not> DeepEqual r defaultValue then Inr [r]
                  else Inr [])))))))))"

definition readGroups_body ::
  "(val \<Rightarrow> error + string) \<Rightarrow> ResourceData \<Rightarrow> (string \<times> val) list \<Rightarrow> TaskGroup
   \<Rightarrow> error + val" where
  "readGroups_body json_Marshal d currentConfig g =
     bnd (readGroups_ephemeralDisk currentConfig g) (\<lambda>ephemeralDisk.
     bnd (readGroups_restart d currentConfig g) (\<lambda>restart.
       (let volume = map (\<lambda>(name, vlm). VMap [
              (''name'', VString name),
              (''type'', VString (VolumeRequest.Type vlm)),
              (''source'', VString (VolumeRequest.Source vlm)),
              (''read_only'', VBool (VolumeRequest.ReadOnly vlm))]) (TaskGroup.Volumes g)
        in bnd (readTasks json_Marshal (TaskGroup.Tasks g)) (\<lambda>tasks.
           bnd (readServices json_Marshal (TaskGroup.Services g)) (\<lambda>services.
           bnd (assertList (index currentConfig ''reschedule'')) (\<lambda>reschedule_blocks.
           bnd (readReschedule d (length reschedule_blocks > 0) (TaskGroup.ReschedulePolicy g))
             (\<lambda>reschedule.
           bnd (assertList (index currentConfig ''migrate'')) (\<lambda>migrate_blocks.
           bnd (readMigrate (length migrate_blocks > 0) (TaskGroup.Migrate g)) (\<lambda>migrate.
           bnd (readNetworks (TaskGroup.Networks g)) (\<lambda>network.
             (let group = [
                    (''name'', VPtrString (TaskGroup.Name g)),
                    (''meta'', VStringMap (TaskGroup.Meta g)),
                    (''count'', VPtrInt (TaskGroup.Count g)),
                    (''constraint'', readConstraints (TaskGroup.Constraints g)),
                    (''affinity'', readAffinities (TaskGroup.Affinities g)),
                    (''spread'', readSpreads (TaskGroup.Spreads g)),
                    (''ephemeral_disk'', VList ephemeralDisk),
                    (''migrate'', migrate),
                    (''network'', network),
                    (''reschedule'', reschedule),
                    (''restart'', VList restart),
                    (''service'', services),
                    (''task'', tasks),
                    (''volume'', VList volume)];
                  group = (case TaskGroup.ShutdownDelay g of
                             None \<Rightarrow> group
                           | Some sd \<Rightarrow> group @ [(''shutdown_delay'', VString (Duration_String sd))]);
                  group = (case TaskGroup.StopAfterClientDisconnect g of
                             None \<Rightarrow> group
                           | Some sd \<Rightarrow>
                               group @ [(''stop_after_client_disconnect'',
                                         VString (Duration_String sd))])
              in Inr (VMap group))))))))))))"

fun readGroups_loop ::
  "(val \<Rightarrow> error + string) \<Rightarrow> ResourceData \<Rightarrow> val list \<Rightarrow> nat \<Rightarrow> TaskGroup list
   \<Rightarrow> error + val list" where
  "readGroups_loop json_Marshal d groupsConfig i [] = Inr []"
| "readGroups_loop json_Marshal d groupsConfig i (g # groups) =
     (if \<not> i < length groupsConfig then Inl (Panic IndexOutOfRange)
      else
        bnd (assertMap (groupsConfig ! i)) (\<lambda>currentConfig.
        bnd (readGroups_body json_Marshal d currentConfig g) (\<lambda>group.
        bnd (readGroups_loop json_Marshal d groupsConfig (Suc i) groups) (\<lambda>res.
          Inr (group # res)))))"

definition readGroups ::
  "(val \<Rightarrow> error + string) \<Rightarrow> ResourceData \<Rightarrow> TaskGroup list \<Rightarrow> error + val" where
  "readGroups json_Marshal d groups =
     bnd (assertList (Get d ''group'')) (\<lambda>groupsConfig.
     bnd (readGroups_loop json_Marshal d groupsConfig 0 groups) (\<lambda>res.
       Inr (VList res)))"

section \<open>The lifecycle driver\<close>

text \<open>
  \<open>Jobs_Info\<close> is the client's fetch by identity, a parameter: the job, or the message of
  the error it returns. The result of \<open>resourceJobV2Read\<close> is the error it returns, if
  any, and the configuration handle as the call leaves it.
\<close>

definition resourceJobV2Read ::
  "(string \<Rightarrow> string + Job) \<Rightarrow> (val \<Rightarrow> error + string) \<Rightarrow> ResourceData
   \<Rightarrow> error option \<times> ResourceData" where
  "resourceJobV2Read Jobs_Info json_Marshal d =
     (case Jobs_Info (Id' d) of
        Inl err \<Rightarrow>
          if Contains err ''404'' then (None, SetId [] d)
          else (Some (Error (''Failed to read the job: '' @ err)), d)
      | Inr job \<Rightarrow>
          (let d = Set ''namespace'' (VPtrString (Job.Namespace job)) d;
               d = Set ''priority'' (VPtrInt (Job.Priority job)) d;
               d = Set ''type'' (VPtrString (Job.Type job)) d;
               d = Set ''region'' (VPtrString (Job.Region job)) d;
               d = Set ''meta'' (VStringMap (Job.Meta job)) d;
               d = Set ''all_at_once'' (VPtrBool (Job.AllAtOnce job)) d;
               d = Set ''datacenters'' (VStrings (Job.Datacenters job)) d;
               d = Set ''name'' (VPtrString (Job.Name job)) d;
               d = Set ''constraint'' (readConstraints (Job.Constraints job)) d;
               d = Set ''affinity'' (readAffinities (Job.Affinities job)) d;
               d = Set ''spread'' (readSpreads (Job.Spreads job)) d
           in case readGroups json_Marshal d (Job.TaskGroups job) of
                Inl err \<Rightarrow> (Some err, d)
              | Inr groups \<Rightarrow>
                  (let d = Set ''group'' groups d;
                       parameterized =
                         (case Job.ParameterizedJob job of
                            None \<Rightarrow> []
                          | Some pj \<Rightarrow> [VMap [
                              (''meta_optional'', VStrings (ParameterizedJobConfig.MetaOptional pj)),
                              (''meta_required'', VStrings (ParameterizedJobConfig.MetaRequired pj)),
                              (''payload'', VString (ParameterizedJobConfig.Payload pj))]]);
                       d = Set ''parameterized'' (VList parameterized) d;
                       periodic =
                         (case Job.Periodic job of
                            None \<Rightarrow> []
                          | Some pc \<Rightarrow> [VMap [
                              (''cron'', VPtrString (PeriodicConfig.Spec pc)),
                              (''prohibit_overlap'', VPtrBool (PeriodicConfig.ProhibitOverlap pc)),
                              (''time_zone'', VPtrString (PeriodicConfig.TimeZone pc))]]);
                       d = Set ''periodic'' (VList periodic) d
                   in case readUpdate d (Job.Update job) of
                        Inl err \<Rightarrow> (Some err, d)
                      | Inr update \<Rightarrow> (None, Set ''update'' update d))))"

section \<open>Helpers of the encoder\<close>

definition strToPtr :: "string \<Rightarrow> string option" where
  "strToPtr s = (if s = '''' then None else Some s)"

definition boolToPtr :: "bool \<Rightarrow> bool option" where
  "boolToPtr b = Some b"

definition intToPtr :: "int \<Rightarrow> int option" where
  "intToPtr i = Some i"

text \<open>
  \<open>getString\<close>, \<open>getBool\<close> and \<open>getInt\<close> on a block of the tree (their
  \<^verbatim>\<open>map[string]interface{}\<close> branch).
\<close>

definition getString :: "(string \<times> val) list \<Rightarrow> string \<Rightarrow> error + string option" where
  "getString m name = bnd (assertString (index m name)) (\<lambda>s. Inr (strToPtr s))"

definition getBool :: "(string \<times> val) list \<Rightarrow> string \<Rightarrow> error + bool option" where
  "getBool m name = bnd (assertBool (index m name)) (\<lambda>b. Inr (boolToPtr b))"

definition getInt :: "(string \<times> val) list \<Rightarrow> string \<Rightarrow> error + int option" where
  "getInt m name = bnd (assertInt (index m name)) (\<lambda>i. Inr (intToPtr i))"

text \<open>
  \<open>getDuration\<close> returns Go's pair of a pointer and an error. \<open>ParseDuration\<close> is
  \<^verbatim>\<open>time.ParseDuration\<close>, a parameter: it returns a duration and an error or nil.
  \<^verbatim>\<open>duration.Seconds() == 0\<close> holds exactly of the zero duration: the whole seconds
  and the fraction have the same sign.
\<close>

definition getDuration ::
  "(string \<Rightarrow> int \<times> error option) \<Rightarrow> val \<Rightarrow> error + (int option \<times> error option)" where
  "getDuration ParseDuration d =
     bnd (assertString d) (\<lambda>s.
       if s = '''' then Inr (None, None)
       else
         (let (duration, err) = ParseDuration s
          in if duration = 0 then Inr (None, err)
             else Inr (Some duration, err)))"

text \<open>
  A loop that updates a value for each element, in order, and stops at the first element
  whose body fails.
\<close>

fun foldE :: "('a \<Rightarrow> 's \<Rightarrow> error + 's) \<Rightarrow> 'a list \<Rightarrow> 's \<Rightarrow> error + 's" where
  "foldE f [] s = Inr s"
| "foldE f (x # xs) s = bnd (f x s) (foldE f xs)"

text \<open>\<^verbatim>\<open>api.NewSpread\<close> of the client library.\<close>

definition NewSpread :: "string \<Rightarrow> 8 word \<Rightarrow> SpreadTarget list \<Rightarrow> Spread" where
  "NewSpread attribute weight spreadTargets =
     \<lparr>Spread.Attribute = attribute, Weight = Some weight, SpreadTarget = spreadTargets\<rparr>"

text \<open>
  \<open>getSpreads\<close> builds the list \<^verbatim>\<open>spreads\<close> and ends with \<^verbatim>\<open>return nil\<close>.
\<close>

definition getSpreads :: "val \<Rightarrow> error + Spread list" where
  "getSpreads d =
     bnd (assertList d) (\<lambda>blocks.
     bnd (forEach (\<lambda>sp.
            bnd (assertMap sp) (\<lambda>s.
            bnd (assertList (index s ''target'')) (\<lambda>tgs.
            bnd (forEach (\<lambda>tg.
                   bnd (assertMap tg) (\<lambda>t.
                   bnd (assertString (index t ''value'')) (\<lambda>value.
                   bnd (assertInt (index t ''percent'')) (\<lambda>percent.
                     Inr \<lparr>SpreadTarget.Value = value, Percent = word_of_int percent\<rparr>)))) tgs)
              (\<lambda>targets.
            bnd (assertString (index s ''attribute'')) (\<lambda>attribute.
            bnd (assertInt (index s ''weight'')) (\<lambda>weight.
              Inr (NewSpread attribute (word_of_int weight) targets))))))) blocks)
       (\<lambda>spreads. Inr []))"

text \<open>
  \<open>getNetworks\<close>: the body of the loop over the \<^verbatim>\<open>dns\<close> blocks of a network, the body
  of the loop over the networks, and the function. Each of the three inner loops assigns
  \<^verbatim>\<open>append(servers, s.(string))\<close> with \<^verbatim>\<open>servers\<close> the empty slice made before the loop.
\<close>

definition getNetworks_dns :: "val \<Rightarrow> error + DNSConfig" where
  "getNetworks_dns dns =
     bnd (assertMap dns) (\<lambda>d.
       (let DNS = \<lparr>DNSConfig.Servers = [], Searches = [], Options = []\<rparr>;
            servers = []
        in bnd (assertList (index d ''servers'')) (\<lambda>ss.
           bnd (foldE (\<lambda>s DNS. bnd (assertString s) (\<lambda>str.
                  Inr (DNS\<lparr>DNSConfig.Servers := servers @ [str]\<rparr>))) ss DNS) (\<lambda>DNS.
             (let searches = []
              in bnd (assertList (index d ''searches'')) (\<lambda>ss.
                 bnd (foldE (\<lambda>s DNS. bnd (assertString s) (\<lambda>str.
                        Inr (DNS\<lparr>DNSConfig.Searches := searches @ [str]\<rparr>))) ss DNS) (\<lambda>DNS.
                   (let options = []
                    in bnd (assertList (index d ''options'')) (\<lambda>ss.
                       foldE (\<lambda>s DNS. bnd (assertString s) (\<lambda>str.
                         Inr (DNS\<lparr>DNSConfig.Options := options @ [str]\<rparr>))) ss DNS)))))))))"

definition getNetworks_network :: "val \<Rightarrow> error + NetworkResource" where
  "getNetworks_network nr =
     bnd (assertMap nr) (\<lambda>n.
     bnd (assertString (index n ''mode'')) (\<lambda>mode.
     bnd (getInt n ''mbits'') (\<lambda>mbits.
       (let network = \<lparr>NetworkResource.Mode = mode, MBits = mbits, DNS = None\<rparr>
        in bnd (assertList (index n ''dns'')) (\<lambda>dnss.
           foldE (\<lambda>dns network. bnd (getNetworks_dns dns) (\<lambda>DNS.
             Inr (network\<lparr>NetworkResource.DNS := Some DNS\<rparr>))) dnss network)))))"

definition getNetworks :: "val \<Rightarrow> error + NetworkResource list" where
  "getNetworks d = bnd (assertList d) (\<lambda>blocks. forEach getNetworks_network blocks)"

text \<open>
  The encoder, function by function. \<open>ParseDuration\<close> and \<open>json_Unmarshal\<close>
  (\<^verbatim>\<open>json.Unmarshal\<close> into a free-form mapping: the mapping or an error) are parameters
  of the functions that call them. Every call of \<open>getDuration\<close> in the file is followed
  by \<^verbatim>\<open>if err != nil { return nil, err }\<close>; \<open>getDuration_checked\<close> is the call with
  that test. A block that is read by a loop with an assignment keeps the last element;
  one read by a loop that returns in its body is the first element.
\<close>

definition getDuration_checked ::
  "(string \<Rightarrow> int \<times> error option) \<Rightarrow> val \<Rightarrow> error + int option" where
  "getDuration_checked ParseDuration d =
     bnd (getDuration ParseDuration d) (\<lambda>(duration, err).
       case err of Some e \<Rightarrow> Inl e | None \<Rightarrow> Inr duration)"

definition getString_d :: "ResourceData \<Rightarrow> string \<Rightarrow> error + string option" where
  "getString_d d name = bnd (assertString (Get d name)) (\<lambda>s. Inr (strToPtr s))"

definition getBool_d :: "ResourceData \<Rightarrow> string \<Rightarrow> error + bool option" where
  "getBool_d d name = bnd (assertBool (Get d name)) (\<lambda>b. Inr (boolToPtr b))"

definition getInt_d :: "ResourceData \<Rightarrow> string \<Rightarrow> error + int option" where
  "getInt_d d name = bnd (assertInt (Get d name)) (\<lambda>i. Inr (intToPtr i))"

definition getMapOfString :: "val \<Rightarrow> error + (string \<times> string) list" where
  "getMapOfString d =
     bnd (assertMap d) (\<lambda>m.
       forEach (\<lambda>(key, value). bnd (assertString value) (\<lambda>s. Inr (key, s))) m)"

definition getStrings :: "val \<Rightarrow> error + string list" where
  "getStrings d = bnd (assertList d) (\<lambda>xs. forEach assertString xs)"

text \<open>\<^verbatim>\<open>api.NewConstraint\<close> and \<^verbatim>\<open>api.NewAffinity\<close> of the client library.\<close>

definition NewConstraint :: "string \<Rightarrow> string \<Rightarrow> string \<Rightarrow> Constraint" where
  "NewConstraint left operand right =
     \<lparr>Constraint.LTarget = left, RTarget = right, Operand = operand\<rparr>"

definition NewAffinity :: "string \<Rightarrow> string \<Rightarrow> string \<Rightarrow> 8 word \<Rightarrow> Affinity" where
  "NewAffinity lTarget operand rTarget weight =
     \<lparr>Affinity.LTarget = lTarget, RTarget = rTarget, Operand = operand, Weight = Some weight\<rparr>"

definition getConstraints :: "val \<Rightarrow> error + Constraint list" where
  "getConstraints d =
     bnd (assertList d) (\<lambda>blocks.
       forEach (\<lambda>ct.
         bnd (assertMap ct) (\<lambda>c.
         bnd (assertString (index c ''attribute'')) (\<lambda>attribute.
         bnd (assertString (index c ''operator'')) (\<lambda>operator.
         bnd (assertString (index c ''value'')) (\<lambda>value.
           Inr (NewConstraint attribute operator value)))))) blocks)"

definition getAffinities :: "val \<Rightarrow> error + Affinity list" where
  "getAffinities d =
     bnd (assertList d) (\<lambda>blocks.
       forEach (\<lambda>af.
         bnd (assertMap af) (\<lambda>a.
         bnd (assertString (index a ''attribute'')) (\<lambda>attribute.
         bnd (assertString (index a ''operator'')) (\<lambda>operator.
         bnd (assertString (index a ''value'')) (\<lambda>value.
         bnd (assertInt (index a ''weight'')) (\<lambda>weight.
           Inr (NewAffinity attribute operator value (word_of_int weight)))))))) blocks)"

definition getMigrate ::
  "(string \<Rightarrow> int \<times> error option) \<Rightarrow> val \<Rightarrow> error + MigrateStrategy option" where
  "getMigrate ParseDuration d =
     bnd (assertList d) (\<lambda>blocks.
       case blocks of
         [] \<Rightarrow> Inr None
       | mg # _ \<Rightarrow>
           bnd (assertMap mg) (\<lambda>m.
           bnd (getInt m ''max_parallel'') (\<lambda>max_parallel.
           bnd (getString m ''health_check'') (\<lambda>health_check.
           bnd (getDuration_checked ParseDuration (index m ''min_healthy_time'')) (\<lambda>min_healthy_time.
           bnd (getDuration_checked ParseDuration (index m ''healthy_deadline'')) (\<lambda>healthy_deadline.
             Inr (Some \<lparr>MigrateStrategy.MaxParallel = max_parallel, HealthCheck = health_check,
                        MinHealthyTime = min_healthy_time,
                        HealthyDeadline = healthy_deadline\<rparr>)))))))"

definition getReschedule ::
  "(string \<Rightarrow> int \<times> error option) \<Rightarrow> val \<Rightarrow> error + ReschedulePolicy option" where
  "getReschedule ParseDuration d =
     bnd (assertList d) (\<lambda>blocks.
       case blocks of
         [] \<Rightarrow> Inr None
       | re # _ \<Rightarrow>
           bnd (assertMap re) (\<lambda>r.
           bnd (getInt r ''attempts'') (\<lambda>attempts.
           bnd (getString r ''delay_function'') (\<lambda>delay_function.
           bnd (getBool r ''unlimited'') (\<lambda>unlimited.
           bnd (getDuration_checked ParseDuration (index r ''interval'')) (\<lambda>interval.
           bnd (getDuration_checked ParseDuration (index r ''delay'')) (\<lambda>delay.
           bnd (getDuration_checked ParseDuration (index r ''max_delay'')) (\<lambda>max_delay.
             Inr (Some \<lparr>ReschedulePolicy.Attempts = attempts, Interval = interval,
                        Delay = delay, DelayFunction = delay_function, MaxDelay = max_delay,
                        Unlimited = unlimited\<rparr>)))))))))"

definition getUpdate ::
  "(string \<Rightarrow> int \<times> error option) \<Rightarrow> val \<Rightarrow> error + UpdateStrategy option" where
  "getUpdate ParseDuration d =
     bnd (assertList d) (\<lambda>blocks.
       case blocks of
         [] \<Rightarrow> Inr None
       | up # _ \<Rightarrow>
           bnd (assertMap up) (\<lambda>u.
           bnd (getInt u ''max_parallel'') (\<lambda>max_parallel.
           bnd (getString u ''health_check'') (\<lambda>health_check.
           bnd (getInt u ''canary'') (\<lambda>canary.
           bnd (getBool u ''auto_revert'') (\<lambda>auto_revert.
           bnd (getBool u ''auto_promote'') (\<lambda>auto_promote.
           bnd (getDuration_checked ParseDuration (index u ''stagger'')) (\<lambda>stagger.
           bnd (getDuration_checked ParseDuration (index u ''min_healthy_time'')) (\<lambda>min_healthy_time.
           bnd (getDuration_checked ParseDuration (index u ''healthy_deadline'')) (\<lambda>healthy_deadline.
           bnd (getDuration_checked ParseDuration (index u ''progress_deadline'')) (\<lambda>progress_deadline.
             Inr (Some \<lparr>UpdateStrategy.Stagger = stagger, MaxParallel = max_parallel,
                        HealthCheck = health_check, MinHealthyTime = min_healthy_time,
                        HealthyDeadline = healthy_deadline,
                        ProgressDeadline = progress_deadline, Canary = canary,
                        AutoRevert = auto_revert, AutoPromote = auto_promote\<rparr>))))))))))))"

definition getLogConfig :: "val \<Rightarrow> error + LogConfig option" where
  "getLogConfig d =
     bnd (assertList d) (\<lambda>blocks.
       case blocks of
         [] \<Rightarrow> Inr None
       | lg # _ \<Rightarrow>
           bnd (assertMap lg) (\<lambda>l.
           bnd (getInt l ''max_files'') (\<lambda>max_files.
           bnd (getInt l ''max_file_size'') (\<lambda>max_file_size.
             Inr (Some \<lparr>LogConfig.MaxFiles = max_files, MaxFileSizeMB = max_file_size\<rparr>)))))"

definition getResources :: "val \<Rightarrow> error + Resources option" where
  "getResources d =
     bnd (assertList d) (\<lambda>blocks.
       case blocks of
         [] \<Rightarrow> Inr None
       | rs # _ \<Rightarrow>
           bnd (assertMap rs) (\<lambda>r.
           bnd (assertList (index r ''device'')) (\<lambda>dvs.
           bnd (forEach (\<lambda>dv.
                  bnd (assertMap dv) (\<lambda>d.
                  bnd (assertInt (index d ''count'')) (\<lambda>count.
                  bnd (assertString (index d ''name'')) (\<lambda>name.
                  bnd (getConstraints (index d ''constraint'')) (\<lambda>constraints.
                  bnd (getAffinities (index d ''affinity'')) (\<lambda>affinities.
                    Inr \<lparr>RequestedDevice.Name = name, Count = Some (word_of_int count),
                         Constraints = constraints, Affinities = affinities\<rparr>)))))) dvs)
             (\<lambda>devices.
           bnd (getInt r ''cpu'') (\<lambda>cpu.
           bnd (getInt r ''memory'') (\<lambda>memory.
           bnd (getNetworks (index r ''network'')) (\<lambda>networks.
             Inr (Some \<lparr>Resources.CPU = cpu, MemoryMB = memory, Networks = networks,
                        Devices = devices\<rparr>))))))))"

definition getVault :: "val \<Rightarrow> error + Vault option" where
  "getVault d =
     bnd (assertList d) (\<lambda>blocks.
       case blocks of
         [] \<Rightarrow> Inr None
       | vlt # _ \<Rightarrow>
           bnd (assertMap vlt) (\<lambda>v.
           bnd (getStrings (index v ''policies'')) (\<lambda>policies.
           bnd (getString v ''namespace'') (\<lambda>namespace.
           bnd (getBool v ''env'') (\<lambda>env.
           bnd (getString v ''change_mode'') (\<lambda>change_mode.
           bnd (getString v ''change_signal'') (\<lambda>change_signal.
             Inr (Some \<lparr>Vault.Policies = policies, Namespace = namespace, Env = env,
                        ChangeMode = change_mode, ChangeSignal = change_signal\<rparr>))))))))"

text \<open>
  \<^verbatim>\<open>json.Unmarshal\<close> is called with two kinds of target: a free-form mapping
  (\<^verbatim>\<open>&config\<close>) and, in the sidecar task, the \<^verbatim>\<open>interface{}\<close> parameter of
  \<open>getServices\<close> (\<^verbatim>\<open>&d\<close>), which leaves \<^verbatim>\<open>config\<close> nil.
\<close>

datatype target = IntoMap | IntoInterface

definition getServices_check ::
  "(string \<Rightarrow> int \<times> error option) \<Rightarrow> val \<Rightarrow> error + ServiceCheck" where
  "getServices_check ParseDuration cks =
     bnd (assertMap cks) (\<lambda>c.
     bnd (getStrings (index c ''args'')) (\<lambda>args.
     bnd (assertList (index c ''check_restart'')) (\<lambda>crts.
     bnd (foldE (\<lambda>crt checkRestart.
            bnd (assertMap crt) (\<lambda>cr.
            bnd (getDuration_checked ParseDuration (index cr ''grace'')) (\<lambda>grace.
            bnd (assertInt (index cr ''limit'')) (\<lambda>limit.
            bnd (assertBool (index cr ''ignore_warnings'')) (\<lambda>ignore_warnings.
              Inr (Some \<lparr>CheckRestart.Limit = limit, Grace = grace,
                         IgnoreWarnings = ignore_warnings\<rparr>)))))) crts None) (\<lambda>checkRestart.
     bnd (assertString (index c ''address_mode'')) (\<lambda>address_mode.
     bnd (assertString (index c ''command'')) (\<lambda>command.
     bnd (assertString (index c ''grpc_service'')) (\<lambda>grpc_service.
     bnd (assertBool (index c ''grpc_use_tls'')) (\<lambda>grpc_use_tls.
     bnd (assertString (index c ''initial_status'')) (\<lambda>initial_status.
     bnd (assertInt (index c ''success_before_passing'')) (\<lambda>success_before_passing.
     bnd (assertInt (index c ''failures_before_critical'')) (\<lambda>failures_before_critical.
     bnd (assertString (index c ''method'')) (\<lambda>method.
     bnd (assertString (index c ''name'')) (\<lambda>name.
     bnd (assertString (index c ''path'')) (\<lambda>path.
     bnd (assertBool (index c ''expose'')) (\<lambda>expose.
     bnd (assertString (index c ''port'')) (\<lambda>port.
     bnd (assertString (index c ''protocol'')) (\<lambda>protocol.
     bnd (assertString (index c ''task'')) (\<lambda>task.
     bnd (assertString (index c ''type'')) (\<lambda>type'.
     bnd (assertBool (index c ''tls_skip_verify'')) (\<lambda>tls_skip_verify.
     bnd (getDuration_checked ParseDuration (index c ''timeout'')) (\<lambda>timeout.
     bnd (getDuration_checked ParseDuration (index c ''interval'')) (\<lambda>interval.
       Inr \<lparr>ServiceCheck.AddressMode = address_mode, Args = args, Command = command,
            GRPCService = grpc_service, GRPCUseTLS = grpc_use_tls,
            InitialStatus = initial_status, SuccessBeforePassing = success_before_passing,
            FailuresBeforeCritical = failures_before_critical,
            Interval = (case interval of None \<Rightarrow> 0 | Some duration \<Rightarrow> duration),
            Method = method, Name = name, Path = path, Expose = expose, PortLabel = port,
            Protocol = protocol, TaskName = task,
            Timeout = (case timeout of None \<Rightarrow> 0 | Some duration \<Rightarrow> duration),
            Type = type', TLSSkipVerify = tls_skip_verify,
            CheckRestart = checkRestart\<rparr>))))))))))))))))))))))"

definition getServices_sidecarTask ::
  "(string \<Rightarrow> int \<times> error option) \<Rightarrow> (string \<Rightarrow> target \<Rightarrow> error + val) \<Rightarrow> val
   \<Rightarrow> error + SidecarTask" where
  "getServices_sidecarTask ParseDuration json_Unmarshal stask =
     bnd (assertMap stask) (\<lambda>st.
     bnd (assertString (index st ''config'')) (\<lambda>text.
     bnd (json_Unmarshal text IntoInterface) (\<lambda>d.
       (let config = VNil
        in bnd (getMapOfString (index st ''meta'')) (\<lambda>meta.
           bnd (assertString (index st ''Name'')) (\<lambda>name.
           bnd (assertString (index st ''Driver'')) (\<lambda>driver.
           bnd (assertString (index st ''User'')) (\<lambda>user.
           bnd (getMapOfString (index st ''env'')) (\<lambda>env.
           bnd (assertString (index st ''kill_signal'')) (\<lambda>kill_signal.
           bnd (getResources (index st ''resources'')) (\<lambda>resources.
           bnd (getLogConfig (index st ''logs'')) (\<lambda>logs.
           bnd (getDuration_checked ParseDuration (index st ''kill_timeout'')) (\<lambda>kill_timeout.
           bnd (getDuration_checked ParseDuration (index st ''shutdown_delay'')) (\<lambda>shutdown_delay.
             Inr \<lparr>SidecarTask.Name = name, Driver = driver, User = user, Config = config,
                  Env = env, Resources = resources, Meta = meta, KillTimeout = kill_timeout,
                  LogConfig = logs, ShutdownDelay = shutdown_delay,
                  KillSignal = kill_signal\<rparr>))))))))))))))"

definition getServices_proxy ::
  "(string \<Rightarrow> target \<Rightarrow> error + val) \<Rightarrow> val \<Rightarrow> error + ConsulProxy" where
  "getServices_proxy json_Unmarshal proxy =
     bnd (assertMap proxy) (\<lambda>p.
     bnd (assertString (index p ''config'')) (\<lambda>text.
     bnd (json_Unmarshal text IntoMap) (\<lambda>config.
     bnd (assertList (index p ''upstreams'')) (\<lambda>ups.
     bnd (forEach (\<lambda>up.
            bnd (assertMap up) (\<lambda>u.
            bnd (assertString (index u ''destination_name'')) (\<lambda>destination_name.
            bnd (assertInt (index u ''local_bind_port'')) (\<lambda>local_bind_port.
              Inr \<lparr>ConsulUpstream.DestinationName = destination_name,
                   LocalBindPort = local_bind_port\<rparr>)))) ups) (\<lambda>upstreams.
     bnd (assertList (index p ''expose'')) (\<lambda>cecs.
     bnd (foldE (\<lambda>cec exposeConfig.
            bnd (assertMap cec) (\<lambda>ec.
            bnd (assertList (index ec ''path'')) (\<lambda>ceps.
            bnd (forEach (\<lambda>cep.
                   bnd (assertMap cep) (\<lambda>p.
                   bnd (assertString (index p ''path'')) (\<lambda>path.
                   bnd (assertString (index p ''protocol'')) (\<lambda>protocol.
                   bnd (assertInt (index p ''local_path_port'')) (\<lambda>local_path_port.
                   bnd (assertString (index p ''listener_port'')) (\<lambda>listener_port.
                     Inr \<lparr>ConsulExposePath.Path = path, Protocol = protocol,
                          LocalPathPort = local_path_port,
                          ListenerPort = listener_port\<rparr>)))))) ceps) (\<lambda>paths.
              Inr (Some \<lparr>ConsulExposeConfig.Path = paths\<rparr>))))) cecs None) (\<lambda>exposeConfig.
     bnd (assertString (index p ''local_service_address'')) (\<lambda>local_service_address.
     bnd (assertInt (index p ''local_service_port'')) (\<lambda>local_service_port.
       Inr \<lparr>ConsulProxy.LocalServiceAddress = local_service_address,
            LocalServicePort = local_service_port, ExposeConfig = exposeConfig,
            Upstreams = upstreams, Config = config\<rparr>)))))))))"

definition getServices_sidecarService ::
  "(string \<Rightarrow> target \<Rightarrow> error + val) \<Rightarrow> val \<Rightarrow> error + ConsulSidecarService" where
  "getServices_sidecarService json_Unmarshal sservice =
     bnd (assertMap sservice) (\<lambda>ss.
     bnd (getStrings (index ss ''tags'')) (\<lambda>tags.
     bnd (assertList (index ss ''proxy'')) (\<lambda>proxies.
     bnd (foldE (\<lambda>proxy consulProxy.
            bnd (getServices_proxy json_Unmarshal proxy) (\<lambda>p. Inr (Some p))) proxies None)
       (\<lambda>consulProxy.
     bnd (assertString (index ss ''port'')) (\<lambda>port.
       Inr \<lparr>ConsulSidecarService.Tags = tags, Port = port, Proxy = consulProxy\<rparr>)))))"

definition getServices_connect ::
  "(string \<Rightarrow> int \<times> error option) \<Rightarrow> (string \<Rightarrow> target \<Rightarrow> error + val) \<Rightarrow> val
   \<Rightarrow> error + ConsulConnect" where
  "getServices_connect ParseDuration json_Unmarshal con =
     bnd (assertMap con) (\<lambda>cn.
     bnd (assertList (index cn ''sidecar_task'')) (\<lambda>stasks.
     bnd (foldE (\<lambda>stask sidecarTask.
            bnd (getServices_sidecarTask ParseDuration json_Unmarshal stask) (\<lambda>st.
              Inr (Some st))) stasks None) (\<lambda>sidecarTask.
     bnd (assertList (index cn ''sidecar_service'')) (\<lambda>sservices.
     bnd (foldE (\<lambda>sservice sidecarService.
            bnd (getServices_sidecarService json_Unmarshal sservice) (\<lambda>ss.
              Inr (Some ss))) sservices None) (\<lambda>sidecarService.
     bnd (assertBool (index cn ''native'')) (\<lambda>native.
       Inr \<lparr>ConsulConnect.Native = native, SidecarService = sidecarService,
            SidecarTask = sidecarTask\<rparr>))))))"

definition getServices_body ::
  "(string \<Rightarrow> int \<times> error option) \<Rightarrow> (string \<Rightarrow> target \<Rightarrow> error + val) \<Rightarrow> val
   \<Rightarrow> error + Service" where
  "getServices_body ParseDuration json_Unmarshal svc =
     bnd (assertMap svc) (\<lambda>s.
     bnd (getStrings (index s ''tags'')) (\<lambda>tags.
     bnd (getStrings (index s ''canary_tags'')) (\<lambda>canaryTags.
     bnd (assertList (index s ''check'')) (\<lambda>cks.
     bnd (forEach (getServices_check ParseDuration) cks) (\<lambda>checks.
     bnd (assertList (index s ''connect'')) (\<lambda>cons.
     bnd (foldE (\<lambda>con connect.
            bnd (getServices_connect ParseDuration json_Unmarshal con) (\<lambda>c.
              Inr (Some c))) cons None) (\<lambda>connect.
     bnd (getMapOfString (index s ''meta'')) (\<lambda>meta.
     bnd (assertString (index s ''name'')) (\<lambda>name.
     bnd (assertString (index s ''port'')) (\<lambda>port.
     bnd (assertBool (index s ''enable_tag_override'')) (\<lambda>enable_tag_override.
     bnd (assertString (index s ''address_mode'')) (\<lambda>address_mode.
     bnd (assertString (index s ''task'')) (\<lambda>task.
     bnd (getMapOfString (index s ''canary_meta'')) (\<lambda>canary_meta.
       Inr \<lparr>Service.Name = name, Tags = tags, CanaryTags = canaryTags,
            EnableTagOverride = enable_tag_override, PortLabel = port,
            AddressMode = address_mode, Checks = checks, Connect = connect, Meta = meta,
            CanaryMeta = canary_meta, TaskName = task\<rparr>))))))))))))))"

definition getServices ::
  "(string \<Rightarrow> int \<times> error option) \<Rightarrow> (string \<Rightarrow> target \<Rightarrow> error + val) \<Rightarrow> val
   \<Rightarrow> error + Service list" where
  "getServices ParseDuration json_Unmarshal d =
     bnd (assertList d) (\<lambda>blocks.
       forEach (getServices_body ParseDuration json_Unmarshal) blocks)"

definition getTasks_template ::
  "(string \<Rightarrow> int \<times> error option) \<Rightarrow> val \<Rightarrow> error + Template" where
  "getTasks_template ParseDuration tpl =
     bnd (assertMap tpl) (\<lambda>tp.
     bnd (getString tp ''change_mode'') (\<lambda>change_mode.
     bnd (getString tp ''change_signal'') (\<lambda>change_signal.
     bnd (getString tp ''data'') (\<lambda>data.
     bnd (getString tp ''destination'') (\<lambda>destination.
     bnd (getBool tp ''env'') (\<lambda>env.
     bnd (getString tp ''left_delimiter'') (\<lambda>left_delimiter.
     bnd (getString tp ''perms'') (\<lambda>perms.
     bnd (getString tp ''right_delimiter'') (\<lambda>right_delimiter.
     bnd (getString tp ''source'') (\<lambda>source.
     bnd (getDuration_checked ParseDuration (index tp ''splay'')) (\<lambda>splay.
     bnd (getDuration_checked ParseDuration (index tp ''vault_grace'')) (\<lambda>vault_grace.
       Inr \<lparr>Template.SourcePath = source, DestPath = destination, EmbeddedTmpl = data,
            ChangeMode = change_mode, ChangeSignal = change_signal, Splay = splay,
            Perms = perms, LeftDelim = left_delimiter, RightDelim = right_delimiter,
            Envvars = env, VaultGrace = vault_grace\<rparr>))))))))))))"

definition getTasks_body ::
  "(string \<Rightarrow> int \<times> error option) \<Rightarrow> (string \<Rightarrow> target \<Rightarrow> error + val) \<Rightarrow> val
   \<Rightarrow> error + Task" where
  "getTasks_body ParseDuration json_Unmarshal tk =
     bnd (assertMap tk) (\<lambda>t.
     bnd (assertList (index t ''artifact'')) (\<lambda>afs.
     bnd (forEach (\<lambda>af.
            bnd (assertMap af) (\<lambda>a.
            bnd (getString a ''source'') (\<lambda>source.
            bnd (getMapOfString (index a ''options'')) (\<lambda>options.
            bnd (getString a ''mode'') (\<lambda>mode.
            bnd (getString a ''destination'') (\<lambda>destination.
              Inr \<lparr>TaskArtifact.GetterSource = source, GetterOptions = options,
                   GetterMode = mode, RelativeDest = destination\<rparr>)))))) afs) (\<lambda>artifacts.
     bnd (assertList (index t ''dispatch_payload'')) (\<lambda>dps.
     bnd (foldE (\<lambda>dp dispatchPayloadConfig.
            bnd (assertMap dp) (\<lambda>d.
            bnd (assertString (index d ''file'')) (\<lambda>file.
              Inr (Some \<lparr>DispatchPayloadConfig.File = file\<rparr>)))) dps None)
       (\<lambda>dispatchPayloadConfig.
     bnd (assertList (index t ''lifecycle'')) (\<lambda>tls.
     bnd (foldE (\<lambda>tl taskLifecycle.
            bnd (assertMap tl) (\<lambda>l.
            bnd (assertString (index l ''hook'')) (\<lambda>hook.
            bnd (assertBool (index l ''sidecar'')) (\<lambda>sidecar.
              Inr (Some \<lparr>TaskLifecycle.Hook = hook, Sidecar = sidecar\<rparr>))))) tls None)
       (\<lambda>taskLifecycle.
     bnd (assertList (index t ''template'')) (\<lambda>tpls.
     bnd (forEach (getTasks_template ParseDuration) tpls) (\<lambda>templates.
     bnd (assertList (index t ''volume_mount'')) (\<lambda>vms.
     bnd (forEach (\<lambda>vm.
            bnd (assertMap vm) (\<lambda>v.
            bnd (getString v ''volume'') (\<lambda>volume.
            bnd (getString v ''destination'') (\<lambda>destination.
            bnd (getBool v ''read_only'') (\<lambda>read_only.
              Inr \<lparr>VolumeMount.Volume = volume, Destination = destination,
                   ReadOnly = read_only\<rparr>))))) vms) (\<lambda>volumeMounts.
     bnd (assertString (index t ''config'')) (\<lambda>text.
     bnd (json_Unmarshal text IntoMap) (\<lambda>config.
     bnd (getServices ParseDuration json_Unmarshal (index t ''service'')) (\<lambda>services.
     bnd (assertString (index t ''name'')) (\<lambda>name.
     bnd (getMapOfString (index t ''meta'')) (\<lambda>meta.
     bnd (assertString (index t ''driver'')) (\<lambda>driver.
     bnd (assertString (index t ''kill_signal'')) (\<lambda>kill_signal.
     bnd (assertBool (index t ''leader'')) (\<lambda>leader.
     bnd (assertString (index t ''user'')) (\<lambda>user.
     bnd (assertString (index t ''kind'')) (\<lambda>kind.
     bnd (getConstraints (index t ''constraint'')) (\<lambda>constraints.
     bnd (getAffinities (index t ''affinity'')) (\<lambda>affinities.
     bnd (getMapOfString (index t ''env'')) (\<lambda>env.
     bnd (getLogConfig (index t ''logs'')) (\<lambda>logs.
     bnd (getResources (index t ''resources'')) (\<lambda>resources.
     bnd (getVault (index t ''vault'')) (\<lambda>vault.
     bnd (getDuration_checked ParseDuration (index t ''kill_timeout'')) (\<lambda>kill_timeout.
     bnd (getDuration_checked ParseDuration (index t ''shutdown_delay'')) (\<lambda>shutdown_delay.
       Inr \<lparr>Task.Name = name, Driver = driver, User = user, Lifecycle = taskLifecycle,
            Config = config, Constraints = constraints, Affinities = affinities, Env = env,
            Services = services, Resources = resources, Meta = meta,
            KillTimeout = kill_timeout, LogConfig = logs, Artifacts = artifacts,
            Vault = vault, Templates = templates, DispatchPayload = dispatchPayloadConfig,
            VolumeMounts = volumeMounts, Leader = leader,
            ShutdownDelay = (case shutdown_delay of None \<Rightarrow> 0 | Some duration \<Rightarrow> duration),
            KillSignal = kill_signal, Kind = kind\<rparr>)))))))))))))))))))))))))))))"

definition getTasks ::
  "(string \<Rightarrow> int \<times> error option) \<Rightarrow> (string \<Rightarrow> target \<Rightarrow> error + val) \<Rightarrow> val
   \<Rightarrow> error + Task list" where
  "getTasks ParseDuration json_Unmarshal d =
     bnd (assertList d) (\<lambda>blocks. forEach (getTasks_body ParseDuration json_Unmarshal) blocks)"

text \<open>
  \<^verbatim>\<open>volumes[name] = ...\<close> on the Go map of the volumes of a group: a later block of
  the same name replaces the earlier one.
\<close>

definition mapAssign :: "'k \<Rightarrow> 'v \<Rightarrow> ('k \<times> 'v) list \<Rightarrow> ('k \<times> 'v) list" where
  "mapAssign k v m =
     (if k \<in> fst ` set m then map (\<lambda>(k', v'). if k' = k then (k', v) else (k', v')) m
      else m @ [(k, v)])"

definition getTaskGroups_body ::
  "(string \<Rightarrow> int \<times> error option) \<Rightarrow> (string \<Rightarrow> target \<Rightarrow> error + val) \<Rightarrow> val
   \<Rightarrow> error + TaskGroup" where
  "getTaskGroups_body ParseDuration json_Unmarshal tg =
     bnd (assertMap tg) (\<lambda>g.
     bnd (getMigrate ParseDuration (index g ''migrate'')) (\<lambda>migrate.
     bnd (getReschedule ParseDuration (index g ''reschedule'')) (\<lambda>reschedule.
     bnd (assertList (index g ''ephemeral_disk'')) (\<lambda>eds.
     bnd (foldE (\<lambda>ed ephemeralDisk.
            bnd (assertMap ed) (\<lambda>e.
            bnd (getBool e ''sticky'') (\<lambda>sticky.
            bnd (getBool e ''migrate'') (\<lambda>migrate.
            bnd (getInt e ''size'') (\<lambda>size.
              Inr (Some \<lparr>EphemeralDisk.Sticky = sticky, Migrate = migrate,
                         SizeMB = size\<rparr>)))))) eds None) (\<lambda>ephemeralDisk.
     bnd (assertList (index g ''restart'')) (\<lambda>rps.
     bnd (foldE (\<lambda>rp restartPolicy.
            bnd (assertMap rp) (\<lambda>r.
            bnd (getInt r ''attempts'') (\<lambda>attempts.
            bnd (getString r ''mode'') (\<lambda>mode.
            bnd (getDuration_checked ParseDuration (index r ''delay'')) (\<lambda>delay.
            bnd (getDuration_checked ParseDuration (index r ''interval'')) (\<lambda>interval.
              Inr (Some \<lparr>RestartPolicy.Interval = interval, Attempts = attempts,
                         Delay = delay, Mode = mode\<rparr>))))))) rps None) (\<lambda>restartPolicy.
     bnd (assertList (index g ''volume'')) (\<lambda>vrs.
     bnd (foldE (\<lambda>vr volumes.
            bnd (assertMap vr) (\<lambda>v.
            bnd (assertString (index v ''name'')) (\<lambda>name.
            bnd (assertString (index v ''type'')) (\<lambda>type'.
            bnd (assertString (index v ''source'')) (\<lambda>source.
            bnd (assertBool (index v ''read_only'')) (\<lambda>read_only.
              Inr (mapAssign name
                     \<lparr>VolumeRequest.Name = name, Type = type', Source = source,
                      ReadOnly = read_only\<rparr> volumes))))))) vrs []) (\<lambda>volumes.
     bnd (getTasks ParseDuration json_Unmarshal (index g ''task'')) (\<lambda>tasks.
     bnd (getServices ParseDuration json_Unmarshal (index g ''service'')) (\<lambda>services.
     bnd (getString g ''name'') (\<lambda>name.
     bnd (getMapOfString (index g ''meta'')) (\<lambda>meta.
     bnd (getInt g ''count'') (\<lambda>count.
     bnd (getConstraints (index g ''constraint'')) (\<lambda>constraints.
     bnd (getAffinities (index g ''affinity'')) (\<lambda>affinities.
     bnd (getSpreads (index g ''spread'')) (\<lambda>spreads.
     bnd (getNetworks (index g ''network'')) (\<lambda>networks.
     bnd (getDuration_checked ParseDuration (index g ''shutdown_delay'')) (\<lambda>shutdown_delay.
     bnd (getDuration_checked ParseDuration (index g ''stop_after_client_disconnect''))
       (\<lambda>stop_after_client_disconnect.
       Inr \<lparr>TaskGroup.Name = name, Count = count, Constraints = constraints,
            Affinities = affinities, Tasks = tasks, Spreads = spreads, Volumes = volumes,
            RestartPolicy = restartPolicy, ReschedulePolicy = reschedule,
            EphemeralDisk = ephemeralDisk, Migrate = migrate, Networks = networks,
            Meta = meta, Services = services, ShutdownDelay = shutdown_delay,
            StopAfterClientDisconnect = stop_after_client_disconnect\<rparr>))))))))))))))))))))"

definition getTaskGroups ::
  "(string \<Rightarrow> int \<times> error option) \<Rightarrow> (string \<Rightarrow> target \<Rightarrow> error + val) \<Rightarrow> val
   \<Rightarrow> error + TaskGroup list" where
  "getTaskGroups ParseDuration json_Unmarshal d =
     bnd (assertList d) (\<lambda>blocks.
       forEach (getTaskGroups_body ParseDuration json_Unmarshal) blocks)"

definition getJob ::
  "(string \<Rightarrow> int \<times> error option) \<Rightarrow> (string \<Rightarrow> target \<Rightarrow> error + val) \<Rightarrow> ResourceData
   \<Rightarrow> error + Job" where
  "getJob ParseDuration json_Unmarshal d =
     bnd (getStrings (Get d ''datacenters'')) (\<lambda>datacenters.
     bnd (assertList (Get d ''parameterized'')) (\<lambda>pjs.
     bnd (foldE (\<lambda>pj parametrizedJob.
            bnd (assertMap pj) (\<lambda>p.
            bnd (getStrings (index p ''meta_required'')) (\<lambda>metaRequired.
            bnd (getStrings (index p ''meta_optional'')) (\<lambda>metaOptional.
            bnd (assertString (index p ''payload'')) (\<lambda>payload.
              Inr (Some \<lparr>ParameterizedJobConfig.Payload = payload,
                         MetaRequired = metaRequired, MetaOptional = metaOptional\<rparr>))))))
            pjs None) (\<lambda>parametrizedJob.
     bnd (assertList (Get d ''periodic'')) (\<lambda>pcs.
     bnd (foldE (\<lambda>pc periodic.
            bnd (assertMap pc) (\<lambda>p.
            bnd (getString p ''cron'') (\<lambda>cron.
            bnd (getBool p ''prohibit_overlap'') (\<lambda>prohibit_overlap.
            bnd (getString p ''time_zone'') (\<lambda>time_zone.
              Inr (Some \<lparr>PeriodicConfig.Enabled = boolToPtr True, Spec = cron,
                         SpecType = strToPtr ''cron'', ProhibitOverlap = prohibit_overlap,
                         TimeZone = time_zone\<rparr>)))))) pcs None) (\<lambda>periodic.
     bnd (getUpdate ParseDuration (Get d ''update'')) (\<lambda>update.
     bnd (getTaskGroups ParseDuration json_Unmarshal (Get d ''group'')) (\<lambda>taskGroups.
     bnd (getString_d d ''namespace'') (\<lambda>namespace.
     bnd (getInt_d d ''priority'') (\<lambda>priority.
     bnd (getString_d d ''type'') (\<lambda>type'.
     bnd (getMapOfString (Get d ''meta'')) (\<lambda>meta.
     bnd (getBool_d d ''all_at_once'') (\<lambda>all_at_once.
     bnd (getString_d d ''name'') (\<lambda>name.
     bnd (getString_d d ''region'') (\<lambda>region.
     bnd (getString_d d ''vault_token'') (\<lambda>vault_token.
     bnd (getString_d d ''consul_token'') (\<lambda>consul_token.
     bnd (getConstraints (Get d ''constraint'')) (\<lambda>constraints.
     bnd (getAffinities (Get d ''affinity'')) (\<lambda>affinities.
     bnd (getSpreads (Get d ''spread'')) (\<lambda>spreads.
       Inr \<lparr>Job.Region = region, Namespace = namespace, ID = name, Name = None,
            Type = type', Priority = priority, AllAtOnce = all_at_once,
            Datacenters = datacenters, Constraints = constraints, Affinities = affinities,
            TaskGroups = taskGroups, Update = update, Spreads = spreads,
            Periodic = periodic, ParameterizedJob = parametrizedJob, Meta = meta,
            ConsulToken = consul_token, VaultToken = vault_token\<rparr>)))))))))))))))))))"

section \<open>The lifecycle driver: register and deregister\<close>

text \<open>
  \<open>Jobs_Register\<close> and \<open>Jobs_Deregister\<close> are the client's calls, parameters: nil or the
  message of the error they return. \<^verbatim>\<open>%v\<close> of a returned error is its message; a panic
  is not caught.
\<close>

definition resourceJobV2Register ::
  "(Job \<Rightarrow> string option) \<Rightarrow> (string \<Rightarrow> string + Job) \<Rightarrow> (string \<Rightarrow> int \<times> error option) \<Rightarrow>
   (string \<Rightarrow> target \<Rightarrow> error + val) \<Rightarrow> (val \<Rightarrow> error + string) \<Rightarrow> ResourceData
   \<Rightarrow> error option \<times> ResourceData" where
  "resourceJobV2Register Jobs_Register Jobs_Info ParseDuration json_Unmarshal json_Marshal d =
     (case getJob ParseDuration json_Unmarshal d of
        Inl (Error err) \<Rightarrow> (Some (Error (''Failed to get job definition: '' @ err)), d)
      | Inl (Panic p) \<Rightarrow> (Some (Panic p), d)
      | Inr job \<Rightarrow>
          (case Jobs_Register job of
             Some err \<Rightarrow> (Some (Error (''Failed to create the job: '' @ err)), d)
           | None \<Rightarrow>
               (case assertString (Get d ''name'') of
                  Inl e \<Rightarrow> (Some e, d)
                | Inr name \<Rightarrow> resourceJobV2Read Jobs_Info json_Marshal (SetId name d))))"

definition resourceJobV2Deregister ::
  "(string \<Rightarrow> bool \<Rightarrow> string option) \<Rightarrow> ResourceData \<Rightarrow> error option \<times> ResourceData" where
  "resourceJobV2Deregister Jobs_Deregister d =
     (case Jobs_Deregister (Id' d) True of
        Some err \<Rightarrow> (Some (Error (''Failed to deregister the job: '' @ err)), d)
      | None \<Rightarrow> (None, SetId [] d))"

section \<open>Example inputs\<close>

text \<open>
  A job of one group and one task as the API returns it, with the restart policy, the log
  configuration and the resources that are the defaults of a \<^verbatim>\<open>service\<close> job; prior
  configurations of a given type and given groups; a marshaller that is right on the nil
  mapping of the example task; a duration parser and an unmarshaller defined on a few
  texts; fetches that fail and one that succeeds; a spread, as the API has it and as a
  block of the tree; a configuration tree of a job for the encoder, with the stagger of
  its update block left open; a service with a sidecar task; a periodic job that is not
  enabled; a job with a constraint, an affinity, a meta entry and a parameterized block.
\<close>

definition example_Marshal :: "val \<Rightarrow> error + string" where
  "example_Marshal v = Inr ''null''"

definition example_ParseDuration :: "string \<Rightarrow> int \<times> error option" where
  "example_ParseDuration s =
     (if s = ''0s'' then (0, None)
      else if s = ''15s'' then (15000000000, None)
      else if s = ''30m0s'' then (1800000000000, None)
      else (0, Some (Error ''time: invalid duration'')))"

definition example_task :: Task where
  "example_task =
     \<lparr>Task.Name = ''server'', Driver = ''docker'', User = [], Lifecycle = None, Config = VNil,
      Constraints = [], Affinities = [], Env = [], Services = [],
      Resources = Some \<lparr>Resources.CPU = Some 100, MemoryMB = Some 300, Networks = [], Devices = []\<rparr>,
      Meta = [], KillTimeout = Some 5000000000,
      LogConfig = Some \<lparr>LogConfig.MaxFiles = Some 10, MaxFileSizeMB = Some 10\<rparr>,
      Artifacts = [], Vault = None, Templates = [], DispatchPayload = None, VolumeMounts = [],
      Leader = False, ShutdownDelay = 0, KillSignal = [], Kind = []\<rparr>"

definition example_group :: TaskGroup where
  "example_group =
     \<lparr>TaskGroup.Name = Some ''web'', Count = Some 1, Constraints = [], Affinities = [],
      Tasks = [example_task], Spreads = [], Volumes = [],
      RestartPolicy = Some \<lparr>RestartPolicy.Interval = Some 1800000000000, Attempts = Some 2,
        Delay = Some 15000000000, Mode = Some ''fail''\<rparr>,
      ReschedulePolicy = None, EphemeralDisk = None, Migrate = None, Networks = [], Meta = [],
      Services = [], ShutdownDelay = None, StopAfterClientDisconnect = None\<rparr>"

definition example_job :: "string \<Rightarrow> TaskGroup list \<Rightarrow> Job" where
  "example_job type' groups =
     \<lparr>Job.Region = Some ''global'', Namespace = Some ''default'', ID = Some ''example'',
      Name = Some ''example'', Type = Some type', Priority = Some 50, AllAtOnce = Some False,
      Datacenters = [''dc1''], Constraints = [], Affinities = [], TaskGroups = groups,
      Update = None, Spreads = [], Periodic = None, ParameterizedJob = None, Meta = [],
      ConsulToken = None, VaultToken = None\<rparr>"

definition example_task_config :: "val list \<Rightarrow> val list \<Rightarrow> val" where
  "example_task_config logs resources =
     VMap [(''name'', VString ''server''), (''driver'', VString ''docker''),
           (''logs'', VList logs), (''resources'', VList resources)]"

definition example_group_config :: "val list \<Rightarrow> val list \<Rightarrow> val" where
  "example_group_config restart task =
     VMap [(''name'', VString ''web''), (''count'', VInt 1), (''ephemeral_disk'', VList []),
           (''restart'', VList restart), (''reschedule'', VList []), (''migrate'', VList []),
           (''task'', VList task)]"

definition example_config :: "string \<Rightarrow> val list \<Rightarrow> ResourceData" where
  "example_config type' groups =
     \<lparr>Id' = ''example'',
      Get = (\<lambda>name. if name = ''type'' then VString type'
                    else if name = ''group'' then VList groups
                    else if name = ''update'' then VList []
                    else VNil)\<rparr>"

definition example_restart_block :: val where
  "example_restart_block =
     VMap [(''attempts'', VInt 2), (''delay'', VString ''15s''), (''interval'', VString ''30m0s''),
           (''mode'', VString ''fail'')]"

definition example_logs_block :: val where
  "example_logs_block = VMap [(''max_files'', VInt 10), (''max_file_size'', VInt 10)]"

definition example_resources_block :: val where
  "example_resources_block =
     VMap [(''cpu'', VInt 100), (''memory'', VInt 300), (''device'', VList []), (''network'', VList [])]"

definition example_not_found :: "string \<Rightarrow> string + Job" where
  "example_not_found id' = Inl ''Unexpected response code: 404 (job not found)''"

definition example_unavailable :: "string \<Rightarrow> string + Job" where
  "example_unavailable id' = Inl ''Unexpected response code: 500 (no cluster leader)''"

definition example_found :: "Job \<Rightarrow> string \<Rightarrow> string + Job" where
  "example_found job id' = Inr job"

definition example_spread :: Spread where
  "example_spread =
     \<lparr>Spread.Attribute = ''${node.datacenter}'', Weight = Some 50,
      SpreadTarget = [\<lparr>SpreadTarget.Value = ''dc1'', Percent = 70\<rparr>]\<rparr>"

definition example_spread_block :: val where
  "example_spread_block =
     VMap [(''attribute'', VString ''${node.datacenter}''), (''weight'', VInt 50),
           (''target'', VList [VMap [(''value'', VString ''dc1''), (''percent'', VInt 70)]])]"

definition example_Unmarshal :: "string \<Rightarrow> target \<Rightarrow> error + val" where
  "example_Unmarshal text t = (if text = ''{}'' then Inr (VMap []) else Inl (Error ''unexpected end of JSON input''))"

definition example_tree :: "val \<Rightarrow> ResourceData" where
  "example_tree stagger =
     \<lparr>Id' = [],
      Get = index [
        (''name'', VString ''example''), (''namespace'', VString ''default''),
        (''priority'', VInt 50), (''type'', VString ''service''), (''region'', VString ''global''),
        (''meta'', VMap []), (''all_at_once'', VBool False),
        (''datacenters'', VList [VString ''dc1'']), (''vault_token'', VString []),
        (''consul_token'', VString []), (''constraint'', VList []), (''affinity'', VList []),
        (''spread'', VList [example_spread_block]), (''parameterized'', VList []),
        (''periodic'', VList []),
        (''update'', VList [VMap [
           (''max_parallel'', VInt 1), (''health_check'', VString ''checks''),
           (''canary'', VInt 0), (''auto_revert'', VBool False), (''auto_promote'', VBool False),
           (''stagger'', stagger), (''min_healthy_time'', VString []),
           (''healthy_deadline'', VString []), (''progress_deadline'', VString [])]]),
        (''group'', VList [VMap [
           (''name'', VString ''web''), (''meta'', VMap []), (''count'', VInt 1),
           (''constraint'', VList []), (''affinity'', VList []),
           (''spread'', VList [example_spread_block]), (''ephemeral_disk'', VList []),
           (''migrate'', VList []), (''network'', VList []), (''reschedule'', VList []),
           (''restart'', VList [example_restart_block]), (''service'', VList []),
           (''task'', VList []), (''volume'', VList []), (''shutdown_delay'', VString []),
           (''stop_after_client_disconnect'', VString [])]])]\<rparr>"

definition example_periodic_job :: Job where
  "example_periodic_job =
     (example_job ''batch'' [])\<lparr>Job.Periodic := Some
        \<lparr>PeriodicConfig.Enabled = Some False, Spec = Some ''@daily'', SpecType = Some ''cron'',
         ProhibitOverlap = Some False, TimeZone = Some ''UTC''\<rparr>\<rparr>"

definition example_constrained_job :: Job where
  "example_constrained_job =
     (example_job ''service'' [])\<lparr>
        Job.Constraints := [\<lparr>Constraint.LTarget = ''${attr.kernel.name}'', RTarget = ''linux'',
                              Operand = ''=''\<rparr>],
        Job.Affinities := [\<lparr>Affinity.LTarget = ''${node.datacenter}'', RTarget = ''dc1'',
                             Operand = ''='', Weight = Some 50\<rparr>],
        Job.Meta := [(''owner'', ''platform'')],
        Job.ParameterizedJob := Some \<lparr>ParameterizedJobConfig.Payload = ''optional'',
                                         MetaRequired = [''input''], MetaOptional = []\<rparr>\<rparr>"

definition example_dns_block :: "(string \<times> val) list" where
  "example_dns_block =
     [(''servers'', VList (map VString [''8.8.8.8'', ''1.1.1.1''])),
      (''searches'', VList (map VString [])),
      (''options'', VList (map VString [''ndots:2'']))]"

definition example_service :: Service where
  "example_service =
     \<lparr>Service.Name = ''api'', Tags = [], CanaryTags = [], EnableTagOverride = False,
      PortLabel = ''http'', AddressMode = ''auto'', Checks = [],
      Connect = Some \<lparr>ConsulConnect.Native = False, SidecarService = None,
        SidecarTask = Some \<lparr>SidecarTask.Name = ''proxy'', Driver = ''docker'', User = [],
          Config = VMap [(''image'', VString ''envoy'')], Env = [], Resources = None, Meta = [],
          KillTimeout = None, LogConfig = None, ShutdownDelay = None, KillSignal = []\<rparr>\<rparr>,
      Meta = [], CanaryMeta = [], TaskName = []\<rparr>"

section \<open>Properties\<close>

subsection \<open>Basic facts\<close>

lemmas example_defs = example_Marshal_def example_ParseDuration_def example_task_def
  example_group_def example_job_def example_task_config_def example_group_config_def
  example_config_def example_restart_block_def example_logs_block_def
  example_resources_block_def example_not_found_def example_unavailable_def example_found_def
  example_spread_def example_dns_block_def example_service_def example_spread_block_def
  example_Unmarshal_def example_tree_def example_periodic_job_def example_constrained_job_def

lemmas reader_defs = readGroups_def readGroups_body_def readGroups_restart_def
  readGroups_ephemeralDisk_def readTasks_def readTasks_body_def readServices_def
  readServices_body_def readLogs_def readResources_def readNetworks_def readVault_def
  readMigrate_def readReschedule_def readUpdate_def readConstraints_def readAffinities_def
  readSpreads_def

lemmas getter_defs = getJob_def getTaskGroups_def getTaskGroups_body_def getTasks_def
  getTasks_body_def getTasks_template_def getServices_def getServices_body_def
  getServices_connect_def getServices_sidecarService_def getServices_proxy_def
  getServices_sidecarTask_def getServices_check_def getVault_def getResources_def
  getLogConfig_def getUpdate_def getReschedule_def getMigrate_def getAffinities_def
  getConstraints_def getStrings_def getMapOfString_def getInt_d_def getBool_d_def
  getString_d_def getDuration_checked_def getDuration_def getNetworks_def
  getNetworks_network_def getNetworks_dns_def getSpreads_def getInt_def getBool_def
  getString_def strToPtr_def boolToPtr_def intToPtr_def NewSpread_def NewConstraint_def
  NewAffinity_def mapAssign_def

lemmas Duration_String_defs = Duration_String_def fmtFrac_def digit_def Let_def

lemma bnd_Inr_iff: "bnd m f = Inr y \<longleftrightarrow> (\<exists>x. m = Inr x \<and> f x = Inr y)"
  by (cases m) (simp_all add: bnd_def)

lemma bnd_Inl [simp]: "bnd (Inl e) f = Inl e"
  by (simp add: bnd_def)

lemma bnd_Inr [simp]: "bnd (Inr x) f = f x"
  by (simp add: bnd_def)

lemma assert_simps [simp]:
  "assertString (VString s) = Inr s"
  "assertInt (VInt i) = Inr i"
  "assertBool (VBool b) = Inr b"
  "assertList (VList xs) = Inr xs"
  "assertMap (VMap m) = Inr m"
  by (simp_all add: assertString_def assertInt_def assertBool_def assertList_def assertMap_def)

lemma index_Nil [simp]: "index [] name = VNil"
  by (simp add: index_def)

lemma index_Cons [simp]: "index ((k, v) # m) name = (if name = k then v else index m name)"
  by (simp add: index_def)

lemma deref_simps [simp]:
  "deref None = Inl (Panic NilDereference)"
  "deref (Some x) = Inr x"
  by (simp_all add: deref_def)

lemma forEach_Inr_length: "forEach f xs = Inr ys \<Longrightarrow> length ys = length xs"
  by (induction xs arbitrary: ys) (auto simp: bnd_Inr_iff)

lemma forEach_Inr_nth:
  "forEach f xs = Inr ys \<Longrightarrow> i < length xs \<Longrightarrow> f (xs ! i) = Inr (ys ! i)"
proof (induction xs arbitrary: ys i)
  case Nil
  then show ?case by simp
next
  case (Cons x xs)
  then show ?case
    by (cases i) (auto simp: bnd_Inr_iff)
qed

lemma forEach_map: "(\<And>x. x \<in> set xs \<Longrightarrow> f x = Inr (g x)) \<Longrightarrow> forEach f xs = Inr (map g xs)"
  by (induction xs) simp_all

lemma forEach_map2:
  "(\<And>x. x \<in> set xs \<Longrightarrow> f (h x) = Inr (g x)) \<Longrightarrow> forEach f (map h xs) = Inr (map g xs)"
  by (induction xs) simp_all


lemma Duration_String_examples:
  "Duration_String 0 = ''0s''"
  "Duration_String 15000000000 = ''15s''"
  "Duration_String 1800000000000 = ''30m0s''"
  "Duration_String 3600000000000 = ''1h0m0s''"
  "Duration_String 86400000000000 = ''24h0m0s''"
  "Duration_String 1500000000 = ''1.5s''"
  by (simp_all add: Duration_String_def fmtFrac_def digit_def Let_def)

subsection \<open>The encoder of the job\<close>

lemma getSpreads_Inr: "getSpreads d = Inr spreads \<Longrightarrow> spreads = []"
  by (auto simp: getSpreads_def bnd_Inr_iff)

lemma getJob_Spreads: "getJob ParseDuration json_Unmarshal d = Inr job \<Longrightarrow> Job.Spreads job = []"
  unfolding getJob_def bnd_Inr_iff by (auto dest: getSpreads_Inr)

lemma getTaskGroups_body_Spreads:
  "getTaskGroups_body ParseDuration json_Unmarshal tg = Inr g \<Longrightarrow> TaskGroup.Spreads g = []"
  unfolding getTaskGroups_body_def bnd_Inr_iff by (auto dest: getSpreads_Inr)

lemma getJob_TaskGroups_Spreads:
  assumes "getJob ParseDuration json_Unmarshal d = Inr job" and "g \<in> set (Job.TaskGroups job)"
  shows "TaskGroup.Spreads g = []"
proof -
  from assms(1) obtain taskGroups where
    t: "getTaskGroups ParseDuration json_Unmarshal (Get d ''group'') = Inr taskGroups"
    and j: "Job.TaskGroups job = taskGroups"
    unfolding getJob_def bnd_Inr_iff by auto
  from t obtain blocks where
    f: "forEach (getTaskGroups_body ParseDuration json_Unmarshal) blocks = Inr taskGroups"
    unfolding getTaskGroups_def bnd_Inr_iff by auto
  from assms(2) j obtain i where i: "i < length taskGroups" "taskGroups ! i = g"
    by (auto simp: in_set_conv_nth)
  from forEach_Inr_length [OF f] i have "i < length blocks" by simp
  from forEach_Inr_nth [OF f this] i
  have "getTaskGroups_body ParseDuration json_Unmarshal (blocks ! i) = Inr g" by simp
  then show ?thesis by (rule getTaskGroups_body_Spreads)
qed






text \<open>
  C5. A read whose fetch fails: when the error carries the not-found indicator (\<^verbatim>\<open>404\<close>
  in its message) the read clears the identity and returns no error; any other failure of
  the fetch is returned to the caller and the configuration handle, its identity included,
  is as it was.
\<close>

theorem resourceJobV2Read_fetch_failure:
  "Jobs_Info (Id' d) = Inl err \<Longrightarrow>
   (Contains err ''404'' \<longrightarrow>
      resourceJobV2Read Jobs_Info json_Marshal d = (None, SetId [] d)
      \<and> Id' (snd (resourceJobV2Read Jobs_Info json_Marshal d)) = [])
   \<and> (\<not> Contains err ''404'' \<longrightarrow>
      resourceJobV2Read Jobs_Info json_Marshal d
        = (Some (Error (''Failed to read the job: '' @ err)), d))"
  by (simp add: resourceJobV2Read_def SetId_def)

theorem resourceJobV2Read_fetch_failure_witness:
  "resourceJobV2Read example_not_found example_Marshal (example_config ''service'' [])
     = (None, SetId [] (example_config ''service'' []))
   \<and> Id' (example_config ''service'' []) = ''example''
   \<and> Id' (snd (resourceJobV2Read example_not_found example_Marshal (example_config ''service'' []))) = []
   \<and> resourceJobV2Read example_unavailable example_Marshal (example_config ''service'' [])
     = (Some (Error ''Failed to read the job: Unexpected response code: 500 (no cluster leader)''),
        example_config ''service'' [])"
  using resourceJobV2Read_fetch_failure [of example_not_found "example_config ''service'' []"
      "''Unexpected response code: 404 (job not found)''" example_Marshal]
    resourceJobV2Read_fetch_failure [of example_unavailable "example_config ''service'' []"
      "''Unexpected response code: 500 (no cluster leader)''" example_Marshal]
  by (simp add: example_not_found_def example_unavailable_def example_config_def SetId_def)

lemma getSpreads_blocks:
  "getSpreads (VList (map (\<lambda>(attribute, weight, targets). VMap [
         (''attribute'', VString attribute),
         (''weight'', VInt weight),
         (''target'', VList (map (\<lambda>(value, percent). VMap [
            (''value'', VString value),
            (''percent'', VInt percent)]) targets))]) blocks)) = Inr []"
proof -
  have inner: "forEach (\<lambda>tg.
                   bnd (assertMap tg) (\<lambda>t.
                   bnd (assertString (index t ''value'')) (\<lambda>value.
                   bnd (assertInt (index t ''percent'')) (\<lambda>percent.
                     Inr \<lparr>SpreadTarget.Value = value, Percent = word_of_int percent\<rparr>))))
          (map (\<lambda>(value, percent). VMap [
            (''value'', VString value),
            (''percent'', VInt percent)]) targets)
        = Inr (map (\<lambda>(value, percent). \<lparr>SpreadTarget.Value = value, Percent = word_of_int percent\<rparr>) targets)"
    for targets :: "(string \<times> int) list"
    by (rule forEach_map2) auto
  have outer: "forEach (\<lambda>sp.
            bnd (assertMap sp) (\<lambda>s.
            bnd (assertList (index s ''target'')) (\<lambda>tgs.
            bnd (forEach (\<lambda>tg.
                   bnd (assertMap tg) (\<lambda>t.
                   bnd (assertString (index t ''value'')) (\<lambda>value.
                   bnd (assertInt (index t ''percent'')) (\<lambda>percent.
                     Inr \<lparr>SpreadTarget.Value = value, Percent = word_of_int percent\<rparr>)))) tgs)
              (\<lambda>targets.
            bnd (assertString (index s ''attribute'')) (\<lambda>attribute.
            bnd (assertInt (index s ''weight'')) (\<lambda>weight.
              Inr (NewSpread attribute (word_of_int weight) targets)))))))
         (map (\<lambda>(attribute, weight, targets). VMap [
         (''attribute'', VString attribute),
         (''weight'', VInt weight),
         (''target'', VList (map (\<lambda>(value, percent). VMap [
            (''value'', VString value),
            (''percent'', VInt percent)]) targets))]) blocks)
       = Inr (map (\<lambda>(attribute, weight, targets). NewSpread attribute (word_of_int weight)
            (map (\<lambda>(value, percent). \<lparr>SpreadTarget.Value = value, Percent = word_of_int percent\<rparr>) targets)) blocks)"
    by (rule forEach_map2) (auto simp: inner)
  show ?thesis
    unfolding getSpreads_def by (simp add: outer)
qed

text \<open>
  C6. The spread encoder discards what it builds: whatever the configuration, a call of
  \<open>getSpreads\<close> that returns returns the empty result; on spread blocks with an
  attribute, a weight and any list of targets it does return; and a job that \<open>getJob\<close>
  returns carries no spread, in the job or in a group.
\<close>

theorem getSpreads_returns_nil:
  "(getSpreads d = Inr spreads \<longrightarrow> spreads = [])
   \<and> getSpreads (VList (map (\<lambda>(attribute, weight, targets). VMap [
         (''attribute'', VString attribute),
         (''weight'', VInt weight),
         (''target'', VList (map (\<lambda>(value, percent). VMap [
            (''value'', VString value),
            (''percent'', VInt percent)]) targets))]) blocks)) = Inr []
   \<and> (getJob ParseDuration json_Unmarshal tree = Inr job \<longrightarrow>
        Job.Spreads job = [] \<and> (\<forall>g \<in> set (Job.TaskGroups job). TaskGroup.Spreads g = []))"
  using getSpreads_Inr getSpreads_blocks getJob_Spreads getJob_TaskGroups_Spreads
  by blast

theorem getSpreads_returns_nil_witness:
  "getSpreads (VList [VMap [
      (''attribute'', VString ''${node.datacenter}''),
      (''weight'', VInt 50),
      (''target'', VList [VMap [(''value'', VString ''dc1''), (''percent'', VInt 70)]])]]) = Inr []
   \<and> (\<exists>job. getJob example_ParseDuration example_Unmarshal (example_tree (VString ''15s'')) = Inr job
        \<and> Job.Spreads job = [] \<and> (\<forall>g \<in> set (Job.TaskGroups job). TaskGroup.Spreads g = []))"
proof -
  obtain job where j: "getJob example_ParseDuration example_Unmarshal (example_tree (VString ''15s'')) = Inr job"
    by (simp add: getter_defs example_defs)
  from getSpreads_returns_nil [where d = "VList []" and spreads = "[]"
      and blocks = "[(''${node.datacenter}'', 50, [(''dc1'', 70)])]"
      and ParseDuration = example_ParseDuration and json_Unmarshal = example_Unmarshal
      and tree = "example_tree (VString ''15s'')" and job = job] j
  show ?thesis by simp
qed

subsection \<open>The encoder of networks\<close>

lemma servers_loop:
  "foldE (\<lambda>s DNS. bnd (assertString s) (\<lambda>str. Inr (DNS\<lparr>DNSConfig.Servers := [str]\<rparr>))) ss D = Inr D'
   \<Longrightarrow> D' = D \<or> (\<exists>str. D' = D\<lparr>DNSConfig.Servers := [str]\<rparr>)"
proof (induction ss arbitrary: D)
  case Nil
  then show ?case by simp
next
  case (Cons s ss)
  then obtain str where s: "s = VString str"
    by (cases s) (auto simp: assertString_def)
  from Cons.prems s
  have "foldE (\<lambda>s DNS. bnd (assertString s) (\<lambda>str. Inr (DNS\<lparr>DNSConfig.Servers := [str]\<rparr>))) ss
          (D\<lparr>DNSConfig.Servers := [str]\<rparr>) = Inr D'"
    by simp
  from Cons.IH [OF this] show ?case by auto
qed

lemma searches_loop:
  "foldE (\<lambda>s DNS. bnd (assertString s) (\<lambda>str. Inr (DNS\<lparr>DNSConfig.Searches := [str]\<rparr>))) ss D = Inr D'
   \<Longrightarrow> D' = D \<or> (\<exists>str. D' = D\<lparr>DNSConfig.Searches := [str]\<rparr>)"
proof (induction ss arbitrary: D)
  case Nil
  then show ?case by simp
next
  case (Cons s ss)
  then obtain str where s: "s = VString str"
    by (cases s) (auto simp: assertString_def)
  from Cons.prems s
  have "foldE (\<lambda>s DNS. bnd (assertString s) (\<lambda>str. Inr (DNS\<lparr>DNSConfig.Searches := [str]\<rparr>))) ss
          (D\<lparr>DNSConfig.Searches := [str]\<rparr>) = Inr D'"
    by simp
  from Cons.IH [OF this] show ?case by auto
qed

lemma options_loop:
  "foldE (\<lambda>s DNS. bnd (assertString s) (\<lambda>str. Inr (DNS\<lparr>DNSConfig.Options := [str]\<rparr>))) ss D = Inr D'
   \<Longrightarrow> D' = D \<or> (\<exists>str. D' = D\<lparr>DNSConfig.Options := [str]\<rparr>)"
proof (induction ss arbitrary: D)
  case Nil
  then show ?case by simp
next
  case (Cons s ss)
  then obtain str where s: "s = VString str"
    by (cases s) (auto simp: assertString_def)
  from Cons.prems s
  have "foldE (\<lambda>s DNS. bnd (assertString s) (\<lambda>str. Inr (DNS\<lparr>DNSConfig.Options := [str]\<rparr>))) ss
          (D\<lparr>DNSConfig.Options := [str]\<rparr>) = Inr D'"
    by simp
  from Cons.IH [OF this] show ?case by auto
qed

lemma servers_loop_strings:
  "foldE (\<lambda>s DNS. bnd (assertString s) (\<lambda>str. Inr (DNS\<lparr>DNSConfig.Servers := [str]\<rparr>)))
     (map VString ss) D = Inr (if ss = [] then D else D\<lparr>DNSConfig.Servers := [last ss]\<rparr>)"
  by (induction ss arbitrary: D) auto

lemma searches_loop_strings:
  "foldE (\<lambda>s DNS. bnd (assertString s) (\<lambda>str. Inr (DNS\<lparr>DNSConfig.Searches := [str]\<rparr>)))
     (map VString ss) D = Inr (if ss = [] then D else D\<lparr>DNSConfig.Searches := [last ss]\<rparr>)"
  by (induction ss arbitrary: D) auto

lemma options_loop_strings:
  "foldE (\<lambda>s DNS. bnd (assertString s) (\<lambda>str. Inr (DNS\<lparr>DNSConfig.Options := [str]\<rparr>)))
     (map VString ss) D = Inr (if ss = [] then D else D\<lparr>DNSConfig.Options := [last ss]\<rparr>)"
  by (induction ss arbitrary: D) auto

lemma getNetworks_dns_lengths:
  assumes "getNetworks_dns dns = Inr c"
  shows "length (DNSConfig.Servers c) \<le> 1 \<and> length (DNSConfig.Searches c) \<le> 1
         \<and> length (DNSConfig.Options c) \<le> 1"
proof -
  let ?D0 = "\<lparr>DNSConfig.Servers = [], Searches = [], Options = []\<rparr>"
  from assms obtain d s1 D1 s2 D2 s3 where
    l1: "foldE (\<lambda>s DNS. bnd (assertString s) (\<lambda>str. Inr (DNS\<lparr>DNSConfig.Servers := [str]\<rparr>))) s1 ?D0 = Inr D1"
    and l2: "foldE (\<lambda>s DNS. bnd (assertString s) (\<lambda>str. Inr (DNS\<lparr>DNSConfig.Searches := [str]\<rparr>))) s2 D1 = Inr D2"
    and l3: "foldE (\<lambda>s DNS. bnd (assertString s) (\<lambda>str. Inr (DNS\<lparr>DNSConfig.Options := [str]\<rparr>))) s3 D2 = Inr c"
    unfolding getNetworks_dns_def Let_def bnd_Inr_iff append_Nil by blast
  from servers_loop [OF l1] searches_loop [OF l2] options_loop [OF l3]
  show ?thesis by auto
qed

lemma dns_loop:
  "foldE (\<lambda>dns network. bnd (getNetworks_dns dns) (\<lambda>DNS.
             Inr (network\<lparr>NetworkResource.DNS := Some DNS\<rparr>))) dnss network = Inr network'
   \<Longrightarrow> NetworkResource.DNS network' = NetworkResource.DNS network
       \<or> (\<exists>dns c. getNetworks_dns dns = Inr c \<and> NetworkResource.DNS network' = Some c)"
proof (induction dnss arbitrary: network)
  case Nil
  then show ?case by simp
next
  case (Cons dns dnss)
  from Cons.prems obtain c where c: "getNetworks_dns dns = Inr c"
    by (cases "getNetworks_dns dns") auto
  with Cons.prems
  have "foldE (\<lambda>dns network. bnd (getNetworks_dns dns) (\<lambda>DNS.
             Inr (network\<lparr>NetworkResource.DNS := Some DNS\<rparr>))) dnss
          (network\<lparr>NetworkResource.DNS := Some c\<rparr>) = Inr network'"
    by simp
  from Cons.IH [OF this] c show ?case by auto
qed

lemma getNetworks_network_lengths:
  assumes "getNetworks_network nr = Inr n" and "NetworkResource.DNS n = Some c"
  shows "length (DNSConfig.Servers c) \<le> 1 \<and> length (DNSConfig.Searches c) \<le> 1
         \<and> length (DNSConfig.Options c) \<le> 1"
proof -
  from assms(1) obtain mode mbits dnss where
    "foldE (\<lambda>dns network. bnd (getNetworks_dns dns) (\<lambda>DNS.
             Inr (network\<lparr>NetworkResource.DNS := Some DNS\<rparr>))) dnss
       \<lparr>NetworkResource.Mode = mode, MBits = mbits, DNS = None\<rparr> = Inr n"
    unfolding getNetworks_network_def Let_def bnd_Inr_iff by blast
  from dns_loop [OF this] assms(2)
  obtain dns where "getNetworks_dns dns = Inr c" by auto
  then show ?thesis by (rule getNetworks_dns_lengths)
qed

text \<open>
  C9. The network encoder keeps one entry of each DNS list: in every network that
  \<open>getNetworks\<close> returns with a DNS structure, the servers, searches and options have
  at most one element each; for a \<^verbatim>\<open>dns\<close> block whose lists are strings it is the
  last configured element of each list, the others are lost.
\<close>

theorem getNetworks_dns_last_only:
  "(getNetworks d = Inr networks \<and> n \<in> set networks \<and> NetworkResource.DNS n = Some c \<longrightarrow>
      length (DNSConfig.Servers c) \<le> 1 \<and> length (DNSConfig.Searches c) \<le> 1
      \<and> length (DNSConfig.Options c) \<le> 1)
   \<and> (index blk ''servers'' = VList (map VString servers)
      \<and> index blk ''searches'' = VList (map VString searches)
      \<and> index blk ''options'' = VList (map VString options) \<longrightarrow>
      getNetworks_dns (VMap blk) = Inr
        \<lparr>DNSConfig.Servers = (if servers = [] then [] else [last servers]),
         Searches = (if searches = [] then [] else [last searches]),
         Options = (if options = [] then [] else [last options])\<rparr>
      \<and> getNetworks (VList [VMap [
           (''mode'', VString mode), (''mbits'', VInt mbits), (''dns'', VList [VMap blk])]])
        = Inr [\<lparr>NetworkResource.Mode = mode, MBits = Some mbits, DNS = Some
            \<lparr>DNSConfig.Servers = (if servers = [] then [] else [last servers]),
             Searches = (if searches = [] then [] else [last searches]),
             Options = (if options = [] then [] else [last options])\<rparr>\<rparr>])"
proof (intro conjI impI)
  assume a: "getNetworks d = Inr networks \<and> n \<in> set networks \<and> NetworkResource.DNS n = Some c"
  then obtain blocks where f: "forEach getNetworks_network blocks = Inr networks"
    unfolding getNetworks_def bnd_Inr_iff by blast
  from a obtain i where i: "i < length networks" "networks ! i = n"
    by (auto simp: in_set_conv_nth)
  from forEach_Inr_length [OF f] i have "i < length blocks" by simp
  from forEach_Inr_nth [OF f this] i have "getNetworks_network (blocks ! i) = Inr n" by simp
  from getNetworks_network_lengths [OF this] a
  show "length (DNSConfig.Servers c) \<le> 1" "length (DNSConfig.Searches c) \<le> 1"
       "length (DNSConfig.Options c) \<le> 1" by auto
next
  assume b: "index blk ''servers'' = VList (map VString servers)
      \<and> index blk ''searches'' = VList (map VString searches)
      \<and> index blk ''options'' = VList (map VString options)"
  then show dns: "getNetworks_dns (VMap blk) = Inr
        \<lparr>DNSConfig.Servers = (if servers = [] then [] else [last servers]),
         Searches = (if searches = [] then [] else [last searches]),
         Options = (if options = [] then [] else [last options])\<rparr>"
    by (simp add: getNetworks_dns_def servers_loop_strings searches_loop_strings
          options_loop_strings)
  show "getNetworks (VList [VMap [
           (''mode'', VString mode), (''mbits'', VInt mbits), (''dns'', VList [VMap blk])]])
        = Inr [\<lparr>NetworkResource.Mode = mode, MBits = Some mbits, DNS = Some
            \<lparr>DNSConfig.Servers = (if servers = [] then [] else [last servers]),
             Searches = (if searches = [] then [] else [last searches]),
             Options = (if options = [] then [] else [last options])\<rparr>\<rparr>]"
    by (simp add: getNetworks_def getNetworks_network_def getInt_def intToPtr_def dns)
qed

theorem getNetworks_dns_last_only_witness:
  "getNetworks (VList [VMap [
      (''mode'', VString ''bridge''), (''mbits'', VInt 10), (''dns'', VList [VMap example_dns_block])]])
     = Inr [\<lparr>NetworkResource.Mode = ''bridge'', MBits = Some 10, DNS = Some
          \<lparr>DNSConfig.Servers = [''1.1.1.1''], Searches = [], Options = [''ndots:2'']\<rparr>\<rparr>]
   \<and> length [''1.1.1.1''] \<le> (1::nat)"
  using getNetworks_dns_last_only [of
      "VList [VMap [(''mode'', VString ''bridge''), (''mbits'', VInt 10),
                    (''dns'', VList [VMap example_dns_block])]]"
      "[\<lparr>NetworkResource.Mode = ''bridge'', MBits = Some 10, DNS = Some
          \<lparr>DNSConfig.Servers = [''1.1.1.1''], Searches = [], Options = [''ndots:2'']\<rparr>\<rparr>]"
      "\<lparr>NetworkResource.Mode = ''bridge'', MBits = Some 10, DNS = Some
          \<lparr>DNSConfig.Servers = [''1.1.1.1''], Searches = [], Options = [''ndots:2'']\<rparr>\<rparr>"
      "\<lparr>DNSConfig.Servers = [''1.1.1.1''], Searches = [], Options = [''ndots:2'']\<rparr>"
      example_dns_block "[''8.8.8.8'', ''1.1.1.1'']" "[]" "[''ndots:2'']" "''bridge''" 10]
  by (simp add: example_dns_block_def)

subsection \<open>The decoder of services and tasks\<close>

lemma readServices_body_connect:
  assumes "readServices_body json_Marshal sv = Inr v" and "Service.Connect sv = Some cn"
  shows "\<exists>m ss. v = VMap m \<and> map_of m ''connect'' = Some (VList [VMap [
            (''native'', VBool (ConsulConnect.Native cn)),
            (''sidecar_service'', VList ss),
            (''sidecar_task'', VNil)]])"
  using assms unfolding readServices_body_def Let_def
  by (auto simp: bnd_Inr_iff)

text \<open>
  C8. The sidecar task is never decoded: for every service of the API response that has
  a Connect block, whatever its sidecar task, the decoded service has one \<^verbatim>\<open>connect\<close>
  block and the \<^verbatim>\<open>sidecar_task\<close> of that block is nil.
\<close>

theorem readServices_sidecar_task_nil:
  "readServices json_Marshal services = Inr res \<Longrightarrow> i < length services \<Longrightarrow>
   Service.Connect (services ! i) = Some cn \<Longrightarrow>
   \<exists>blocks m ss. res = VList blocks \<and> length blocks = length services \<and> blocks ! i = VMap m
     \<and> map_of m ''connect'' = Some (VList [VMap [
          (''native'', VBool (ConsulConnect.Native cn)),
          (''sidecar_service'', VList ss),
          (''sidecar_task'', VNil)]])"
proof -
  assume r: "readServices json_Marshal services = Inr res" and i: "i < length services"
    and c: "Service.Connect (services ! i) = Some cn"
  from r obtain blocks where
    f: "forEach (readServices_body json_Marshal) services = Inr blocks" and res: "res = VList blocks"
    unfolding readServices_def bnd_Inr_iff by auto
  from forEach_Inr_nth [OF f i] have "readServices_body json_Marshal (services ! i) = Inr (blocks ! i)" .
  from readServices_body_connect [OF this c] forEach_Inr_length [OF f] res
  show ?thesis by auto
qed

theorem readServices_sidecar_task_nil_witness:
  "Service.Connect example_service \<noteq> None
   \<and> (\<exists>m ss. readServices example_Marshal [example_service] = Inr (VList [VMap m])
        \<and> map_of m ''connect'' = Some (VList [VMap [
             (''native'', VBool False),
             (''sidecar_service'', VList ss),
             (''sidecar_task'', VNil)]]))"
proof -
  obtain res where r: "readServices example_Marshal [example_service] = Inr res"
    by (simp add: readServices_def readServices_body_def example_defs)
  have c: "Service.Connect ([example_service] ! 0) = Some \<lparr>ConsulConnect.Native = False,
        SidecarService = None,
        SidecarTask = Some \<lparr>SidecarTask.Name = ''proxy'', Driver = ''docker'', User = [],
          Config = VMap [(''image'', VString ''envoy'')], Env = [], Resources = None, Meta = [],
          KillTimeout = None, LogConfig = None, ShutdownDelay = None, KillSignal = []\<rparr>\<rparr>"
    by (simp add: example_service_def)
  from readServices_sidecar_task_nil [OF r _ c] obtain blocks m ss where
    "res = VList blocks" "length blocks = 1" "blocks ! 0 = VMap m"
    "map_of m ''connect'' = Some (VList [VMap [
             (''native'', VBool False),
             (''sidecar_service'', VList ss),
             (''sidecar_task'', VNil)]])"
    by auto
  moreover from this have "blocks = [VMap m]"
    by (cases blocks) auto
  ultimately show ?thesis using r c by auto
qed

lemma getServices_sidecarTask_Config:
  "getServices_sidecarTask ParseDuration json_Unmarshal stask = Inr st \<Longrightarrow>
   SidecarTask.Config st = VNil"
  unfolding getServices_sidecarTask_def Let_def bnd_Inr_iff by auto

lemma readTasks_body_logs_resources:
  assumes "readTasks_body json_Marshal t = Inr v"
  shows "\<exists>m logs resources. v = VMap m \<and> readLogs (Task.LogConfig t) = Inr logs
           \<and> readResources (Task.Resources t) = Inr resources
           \<and> map_of m ''logs'' = Some logs \<and> map_of m ''resources'' = Some resources"
  using assms unfolding readTasks_body_def Let_def
  by (auto simp: bnd_Inr_iff)

lemma readLogs_default:
  "readLogs (Some \<lparr>LogConfig.MaxFiles = Some 10, MaxFileSizeMB = Some 10\<rparr>) = Inr VNil"
  by (simp add: readLogs_def)

lemma readNetworks_Nil: "readNetworks [] = Inr (VList [])"
  by (simp add: readNetworks_def)

lemma readResources_default:
  "readResources (Some \<lparr>Resources.CPU = Some 100, MemoryMB = Some 300, Networks = [], Devices = []\<rparr>)
     = Inr VNil"
  by (simp add: readResources_def readNetworks_Nil)

subsection \<open>The decoder of groups\<close>

lemma readGroups_loop_Inr:
  "readGroups_loop json_Marshal d groupsConfig i groups = Inr res \<Longrightarrow>
   length res = length groups \<and> (groups \<noteq> [] \<longrightarrow> i + length groups \<le> length groupsConfig)
   \<and> (\<forall>j < length groups. \<exists>currentConfig. groupsConfig ! (i + j) = VMap currentConfig
        \<and> readGroups_body json_Marshal d currentConfig (groups ! j) = Inr (res ! j))"
proof (induction groups arbitrary: i res)
  case Nil
  then show ?case by simp
next
  case (Cons g groups)
  from Cons.prems have i: "i < length groupsConfig"
    by (auto split: if_splits)
  with Cons.prems obtain currentConfig grp rest where
    cc: "groupsConfig ! i = VMap currentConfig"
    and body: "readGroups_body json_Marshal d currentConfig g = Inr grp"
    and rest: "readGroups_loop json_Marshal d groupsConfig (Suc i) groups = Inr rest"
    and res: "res = grp # rest"
    by (cases "groupsConfig ! i") (auto simp: bnd_Inr_iff assertMap_def)
  from Cons.IH [OF rest] have ih:
    "length rest = length groups" "groups \<noteq> [] \<Longrightarrow> Suc i + length groups \<le> length groupsConfig"
    "\<And>j. j < length groups \<Longrightarrow> \<exists>currentConfig. groupsConfig ! (Suc i + j) = VMap currentConfig
        \<and> readGroups_body json_Marshal d currentConfig (groups ! j) = Inr (rest ! j)"
    by auto
  show ?case
  proof (intro conjI allI impI)
    show "length res = length (g # groups)" using res ih(1) by simp
    show "i + length (g # groups) \<le> length groupsConfig" using ih(2) i by (cases groups) simp_all
    fix j assume j: "j < length (g # groups)"
    show "\<exists>currentConfig. groupsConfig ! (i + j) = VMap currentConfig
        \<and> readGroups_body json_Marshal d currentConfig ((g # groups) ! j) = Inr (res ! j)"
    proof (cases j)
      case 0
      with cc body res show ?thesis by simp
    next
      case (Suc k)
      with j have "k < length groups" by simp
      from ih(3) [OF this] Suc res show ?thesis by simp
    qed
  qed
qed

lemma readGroups_loop_append:
  "readGroups_loop json_Marshal d groupsConfig i (xs @ ys) =
     bnd (readGroups_loop json_Marshal d groupsConfig i xs) (\<lambda>r1.
     bnd (readGroups_loop json_Marshal d groupsConfig (i + length xs) ys) (\<lambda>r2.
       Inr (r1 @ r2)))"
proof (induction xs arbitrary: i)
  case Nil
  show ?case by (cases "readGroups_loop json_Marshal d groupsConfig i ys") simp_all
next
  case (Cons x xs)
  show ?case
  proof (cases "i < length groupsConfig")
    case False
    then show ?thesis by simp
  next
    case True
    show ?thesis
    proof (cases "assertMap (groupsConfig ! i)")
      case (Inl e)
      with True show ?thesis by simp
    next
      case (Inr currentConfig)
      show ?thesis
      proof (cases "readGroups_body json_Marshal d currentConfig x")
        case (Inl e)
        with True Inr show ?thesis by simp
      next
        case body: (Inr grp)
        show ?thesis
        proof (cases "readGroups_loop json_Marshal d groupsConfig (Suc i) xs")
          case (Inl e)
          with True Inr body Cons.IH [of "Suc i"] show ?thesis by simp
        next
          case r1: (Inr r1)
          show ?thesis
          proof (cases "readGroups_loop json_Marshal d groupsConfig (Suc i + length xs) ys")
            case (Inl e)
            with True Inr body r1 Cons.IH [of "Suc i"] show ?thesis by simp
          next
            case r2: (Inr r2)
            with True Inr body r1 Cons.IH [of "Suc i"] show ?thesis by simp
          qed
        qed
      qed
    qed
  qed
qed

lemma readGroups_loop_out_of_range:
  "length groupsConfig \<le> i \<Longrightarrow> groups \<noteq> [] \<Longrightarrow>
   readGroups_loop json_Marshal d groupsConfig i groups = Inl (Panic IndexOutOfRange)"
  by (cases groups) simp_all

text \<open>
  C10. The decoder of groups reads the prior configuration's group at the position of the
  API's group: it returns only when the prior configuration has at least as many group
  blocks as the API returns groups. With more groups from the API the call never returns
  a result, and when the groups that do have a prior block decode, it is the lookup of the
  prior group that fails, out of range.
\<close>

theorem readGroups_needs_prior_group:
  "(readGroups json_Marshal d groups = Inr res \<longrightarrow>
      (\<exists>groupsConfig. Get d ''group'' = VList groupsConfig \<and> length groups \<le> length groupsConfig))
   \<and> (Get d ''group'' = VList groupsConfig \<and> length groupsConfig < length groups \<longrightarrow>
      (\<exists>e. readGroups json_Marshal d groups = Inl e)
      \<and> ((\<exists>r. readGroups_loop json_Marshal d groupsConfig 0 (take (length groupsConfig) groups) = Inr r)
           \<longrightarrow> readGroups json_Marshal d groups = Inl (Panic IndexOutOfRange)))"
proof (intro conjI impI)
  assume "readGroups json_Marshal d groups = Inr res"
  then obtain groupsConfig r where g: "Get d ''group'' = VList groupsConfig"
    and l: "readGroups_loop json_Marshal d groupsConfig 0 groups = Inr r"
    unfolding readGroups_def bnd_Inr_iff
    by (cases "Get d ''group''") (auto simp: assertList_def)
  from readGroups_loop_Inr [OF l] g
  show "\<exists>groupsConfig. Get d ''group'' = VList groupsConfig \<and> length groups \<le> length groupsConfig"
    by (cases groups) auto
next
  assume a: "Get d ''group'' = VList groupsConfig \<and> length groupsConfig < length groups"
  show "\<exists>e. readGroups json_Marshal d groups = Inl e"
  proof (cases "readGroups json_Marshal d groups")
    case (Inl e)
    then show ?thesis by blast
  next
    case (Inr r)
    then obtain r' where "readGroups_loop json_Marshal d groupsConfig 0 groups = Inr r'"
      using a unfolding readGroups_def bnd_Inr_iff by auto
    from readGroups_loop_Inr [OF this] a show ?thesis by (cases groups) auto
  qed
next
  assume a: "Get d ''group'' = VList groupsConfig \<and> length groupsConfig < length groups"
    and "\<exists>r. readGroups_loop json_Marshal d groupsConfig 0 (take (length groupsConfig) groups) = Inr r"
  then obtain r where
    r: "readGroups_loop json_Marshal d groupsConfig 0 (take (length groupsConfig) groups) = Inr r"
    by blast
  from a have ne: "drop (length groupsConfig) groups \<noteq> []" by simp
  have "readGroups_loop json_Marshal d groupsConfig 0
          (take (length groupsConfig) groups @ drop (length groupsConfig) groups)
        = Inl (Panic IndexOutOfRange)"
    using a r readGroups_loop_out_of_range [OF _ ne, of groupsConfig "length groupsConfig"]
    by (simp only: readGroups_loop_append) (simp add: min_def)
  then show "readGroups json_Marshal d groups = Inl (Panic IndexOutOfRange)"
    using a by (simp add: readGroups_def)
qed

theorem readGroups_needs_prior_group_witness:
  "readGroups example_Marshal (example_config ''service'' []) [example_group]
     = Inl (Panic IndexOutOfRange)
   \<and> (\<exists>res. readGroups example_Marshal
               (example_config ''service'' [example_group_config [] []]) [example_group] = Inr res)
   \<and> length [example_group] \<le> length [example_group_config [] []]"
proof -
  obtain res where r: "readGroups example_Marshal
      (example_config ''service'' [example_group_config [] []]) [example_group] = Inr res"
    by (simp add: example_defs reader_defs Duration_String_defs)
  from readGroups_needs_prior_group [of example_Marshal
      "example_config ''service'' [example_group_config [] []]" "[example_group]" res]
    readGroups_needs_prior_group [of example_Marshal "example_config ''service'' []"
      "[example_group]" _ "[]"] r
  show ?thesis by (simp add: example_config_def)
qed

lemma readGroups_restart_service_default:
  assumes "Get d ''type'' = VString ''service''"
    and "TaskGroup.RestartPolicy g = Some \<lparr>RestartPolicy.Interval = Some interval,
           Attempts = Some 2, Delay = Some delay, Mode = Some ''fail''\<rparr>"
    and "Duration_String delay = ''15s''" and "Duration_String interval = ''30m0s''"
    and "index currentConfig ''restart'' = VList prior"
  shows "readGroups_restart d currentConfig g =
           Inr (if prior = [] then []
                else [VMap [
                  (''attempts'', VInt 2),
                  (''delay'', VString ''15s''),
                  (''interval'', VString ''30m0s''),
                  (''mode'', VString ''fail'')]])"
  using assms by (simp add: readGroups_restart_def)

lemma readGroups_body_restart:
  assumes "readGroups_body json_Marshal d currentConfig g = Inr v"
  shows "\<exists>m restart. v = VMap m \<and> readGroups_restart d currentConfig g = Inr restart
           \<and> map_of m ''restart'' = Some (VList restart)"
  using assms unfolding readGroups_body_def Let_def
  by (auto simp: bnd_Inr_iff split: option.splits)

lemma readGroups_Inr_nth:
  assumes "readGroups json_Marshal d groups = Inr res" and "i < length groups"
  shows "\<exists>groupsConfig blocks currentConfig. Get d ''group'' = VList groupsConfig
           \<and> res = VList blocks \<and> length blocks = length groups
           \<and> groupsConfig ! i = VMap currentConfig
           \<and> readGroups_body json_Marshal d currentConfig (groups ! i) = Inr (blocks ! i)"
proof -
  from assms(1) obtain groupsConfig blocks where g: "Get d ''group'' = VList groupsConfig"
    and l: "readGroups_loop json_Marshal d groupsConfig 0 groups = Inr blocks"
    and res: "res = VList blocks"
    unfolding readGroups_def bnd_Inr_iff
    by (cases "Get d ''group''") (auto simp: assertList_def)
  from readGroups_loop_Inr [OF l] assms(2) g res show ?thesis by auto
qed

text \<open>
  C2. Default suppression of the restart block: in a job of declared type
  \<^verbatim>\<open>service\<close>, a group whose restart policy from the API is 2 attempts, a delay
  rendered \<^verbatim>\<open>15s\<close>, an interval rendered \<^verbatim>\<open>30m0s\<close> and mode \<^verbatim>\<open>fail\<close> is decoded with no
  restart block when the group of the prior configuration has none, and with exactly one,
  holding those values, when the prior configuration has a restart block.
\<close>

theorem readGroups_restart_default_suppressed:
  "readGroups json_Marshal d groups = Inr res \<Longrightarrow>
   Get d ''type'' = VString ''service'' \<Longrightarrow>
   Get d ''group'' = VList groupsConfig \<Longrightarrow> i < length groups \<Longrightarrow>
   groupsConfig ! i = VMap currentConfig \<Longrightarrow>
   index currentConfig ''restart'' = VList prior \<Longrightarrow>
   TaskGroup.RestartPolicy (groups ! i) = Some \<lparr>RestartPolicy.Interval = Some interval,
     Attempts = Some 2, Delay = Some delay, Mode = Some ''fail''\<rparr> \<Longrightarrow>
   Duration_String delay = ''15s'' \<Longrightarrow> Duration_String interval = ''30m0s'' \<Longrightarrow>
   \<exists>blocks m. res = VList blocks \<and> blocks ! i = VMap m
     \<and> map_of m ''restart'' = Some (VList
          (if prior = [] then []
           else [VMap [
             (''attempts'', VInt 2),
             (''delay'', VString ''15s''),
             (''interval'', VString ''30m0s''),
             (''mode'', VString ''fail'')]]))"
proof -
  assume r: "readGroups json_Marshal d groups = Inr res" and i: "i < length groups"
    and t: "Get d ''type'' = VString ''service''"
    and g: "Get d ''group'' = VList groupsConfig" and cc: "groupsConfig ! i = VMap currentConfig"
    and p: "index currentConfig ''restart'' = VList prior"
    and rp: "TaskGroup.RestartPolicy (groups ! i) = Some \<lparr>RestartPolicy.Interval = Some interval,
     Attempts = Some 2, Delay = Some delay, Mode = Some ''fail''\<rparr>"
    and dl: "Duration_String delay = ''15s''" and iv: "Duration_String interval = ''30m0s''"
  from readGroups_Inr_nth [OF r i] g cc obtain blocks where
    res: "res = VList blocks"
    and body: "readGroups_body json_Marshal d currentConfig (groups ! i) = Inr (blocks ! i)"
    by auto
  from readGroups_body_restart [OF body] obtain m restart where
    m: "blocks ! i = VMap m" "readGroups_restart d currentConfig (groups ! i) = Inr restart"
       "map_of m ''restart'' = Some (VList restart)"
    by blast
  from m(2) readGroups_restart_service_default [OF t rp dl iv p]
  have "restart = (if prior = [] then []
           else [VMap [
             (''attempts'', VInt 2),
             (''delay'', VString ''15s''),
             (''interval'', VString ''30m0s''),
             (''mode'', VString ''fail'')]])"
    by simp
  with res m show ?thesis by blast
qed

theorem readGroups_restart_default_suppressed_witness:
  "(\<exists>m. readGroups example_Marshal
           (example_config ''service'' [example_group_config [] []]) [example_group]
         = Inr (VList [VMap m])
       \<and> map_of m ''restart'' = Some (VList []))
   \<and> (\<exists>m. readGroups example_Marshal
           (example_config ''service'' [example_group_config [example_restart_block] []])
           [example_group]
         = Inr (VList [VMap m])
       \<and> map_of m ''restart'' = Some (VList [example_restart_block]))"
proof -
  have rp: "TaskGroup.RestartPolicy ([example_group] ! 0) = Some \<lparr>RestartPolicy.Interval = Some 1800000000000,
     Attempts = Some 2, Delay = Some 15000000000, Mode = Some ''fail''\<rparr>"
    by (simp add: example_group_def)
  have ds: "Duration_String 15000000000 = ''15s''" "Duration_String 1800000000000 = ''30m0s''"
    by (simp_all add: Duration_String_defs)
  obtain res1 where r1: "readGroups example_Marshal
      (example_config ''service'' [example_group_config [] []]) [example_group] = Inr res1"
    by (simp add: example_defs reader_defs Duration_String_defs)
  obtain res2 where r2: "readGroups example_Marshal
      (example_config ''service'' [example_group_config [example_restart_block] []])
      [example_group] = Inr res2"
    by (simp add: example_defs reader_defs Duration_String_defs)
  from readGroups_Inr_nth [OF r1, of 0] obtain b1 where b1: "res1 = VList b1" "length b1 = 1"
    by auto
  from readGroups_Inr_nth [OF r2, of 0] obtain b2 where b2: "res2 = VList b2" "length b2 = 1"
    by auto
  have g1: "Get (example_config ''service'' [example_group_config [] []]) ''group''
              = VList [example_group_config [] []]"
    and g2: "Get (example_config ''service'' [example_group_config [example_restart_block] []]) ''group''
              = VList [example_group_config [example_restart_block] []]"
    and t1: "Get (example_config ''service'' [example_group_config [] []]) ''type'' = VString ''service''"
    and t2: "Get (example_config ''service'' [example_group_config [example_restart_block] []]) ''type''
              = VString ''service''"
    by (simp_all add: example_config_def)
  obtain cc1 where cc1: "[example_group_config [] []] ! 0 = VMap cc1"
    and p1: "index cc1 ''restart'' = VList []"
    by (simp add: example_group_config_def)
  obtain cc2 where cc2: "[example_group_config [example_restart_block] []] ! 0 = VMap cc2"
    and p2: "index cc2 ''restart'' = VList [example_restart_block]"
    by (simp add: example_group_config_def)
  have i: "0 < length [example_group]" by simp
  from readGroups_restart_default_suppressed [OF r1 t1 g1 i cc1 p1 rp ds] b1 r1
  have w1: "\<exists>m. readGroups example_Marshal
           (example_config ''service'' [example_group_config [] []]) [example_group]
         = Inr (VList [VMap m])
       \<and> map_of m ''restart'' = Some (VList [])"
    by (cases b1) auto
  from readGroups_restart_default_suppressed [OF r2 t2 g2 i cc2 p2 rp ds] b2 r2
  have w2: "\<exists>m. readGroups example_Marshal
           (example_config ''service'' [example_group_config [example_restart_block] []])
           [example_group]
         = Inr (VList [VMap m])
       \<and> map_of m ''restart'' = Some (VList [example_restart_block])"
    by (cases b2) (auto simp: example_restart_block_def)
  from w1 w2 show ?thesis by blast
qed








text \<open>
  C7. The log configuration and the resources of a task are decoded without the prior
  configuration: a log configuration of 10 files of 10 MB and resources of 100 MHz and
  300 MB are dropped from the decoded task although the prior configuration declares
  both blocks.
\<close>

theorem readGroups_drops_declared_logs_and_resources:
  "\<exists>grp tsk. readGroups example_Marshal
       (example_config ''service'' [example_group_config []
          [example_task_config [example_logs_block] [example_resources_block]]])
       [example_group]
     = Inr (VList [VMap grp])
   \<and> map_of grp ''task'' = Some (VList [VMap tsk])
   \<and> map_of tsk ''logs'' = Some VNil \<and> map_of tsk ''resources'' = Some VNil"
  by (simp add: example_defs reader_defs Duration_String_defs)

text \<open>
  A spread does not survive the round trip. The read of the example job with one
  spread stores one \<^verbatim>\<open>spread\<close> block; the encoder, given that block, returns no
  spread; and whatever the configuration tree, a job that \<open>getJob\<close> returns has no
  spread, in the job or in a group.
\<close>

lemma spread_lost_on_round_trip:
  "Get (snd (resourceJobV2Read
          (example_found ((example_job ''service'' [])\<lparr>Job.Spreads := [example_spread]\<rparr>))
          example_Marshal (example_config ''service'' []))) ''spread''
     = VList [VMap [
         (''attribute'', VString ''${node.datacenter}''),
         (''weight'', VInt 50),
         (''target'', VList [VMap [(''value'', VString ''dc1''), (''percent'', VInt 70)]])]]
   \<and> getSpreads (VList [VMap [
      (''attribute'', VString ''${node.datacenter}''),
      (''weight'', VInt 50),
      (''target'', VList [VMap [(''value'', VString ''dc1''), (''percent'', VInt 70)]])]])
     = Inr []
   \<and> (getJob ParseDuration json_Unmarshal d = Inr job \<longrightarrow>
        Job.Spreads job = [] \<and> (\<forall>g \<in> set (Job.TaskGroups job). TaskGroup.Spreads g = []))"
proof (intro conjI impI ballI)
  show "Get (snd (resourceJobV2Read
          (example_found ((example_job ''service'' [])\<lparr>Job.Spreads := [example_spread]\<rparr>))
          example_Marshal (example_config ''service'' []))) ''spread''
     = VList [VMap [
         (''attribute'', VString ''${node.datacenter}''),
         (''weight'', VInt 50),
         (''target'', VList [VMap [(''value'', VString ''dc1''), (''percent'', VInt 70)]])]]"
    by (simp add: example_defs reader_defs resourceJobV2Read_def Set_def)
  show "getSpreads (VList [VMap [
      (''attribute'', VString ''${node.datacenter}''),
      (''weight'', VInt 50),
      (''target'', VList [VMap [(''value'', VString ''dc1''), (''percent'', VInt 70)]])]])
     = Inr []"
    by (simp add: getSpreads_def)
next
  assume j: "getJob ParseDuration json_Unmarshal d = Inr job"
  then show "Job.Spreads job = []" by (rule getJob_Spreads)
  fix g assume "g \<in> set (Job.TaskGroups job)"
  with j show "TaskGroup.Spreads g = []" by (rule getJob_TaskGroups_Spreads)
qed

subsection \<open>Reading a job and encoding what was read\<close>













end
